theory Spec2Isabelle
  imports Complex_Main "HOL-Library.Sublist" "HOL-Library.Multiset"
begin

section \<open>Exceptions\<close>

text \<open>
  The exceptions the modelled code can raise. \<open>ExternalError\<close> stands for any exception
  of a collaborator (database connection, embedding model, similarity routine).
  \<open>Timeout\<close> and \<open>RequestException\<close> are those of the \<^verbatim>\<open>requests\<close> library (the second
  with its message), and \<open>JSONDecodeError\<close> is what \<^verbatim>\<open>response.json()\<close> raises on a
  body that is not JSON: with the flag set it is also a \<^verbatim>\<open>RequestException\<close> (as in
  \<^verbatim>\<open>requests\<close> from version 2.27 on), otherwise only a \<^verbatim>\<open>json.JSONDecodeError\<close>.
\<close>

datatype exn =
    ValueError
  | TypeError
  | AttributeError
  | KeyError
  | ExternalError
  | Timeout
  | RequestException string
  | JSONDecodeError bool

section \<open>Python strings and slices\<close>


definition is_space :: "char \<Rightarrow> bool" where
  "is_space c =
     (let n = (of_char c :: nat) in n = 32 \<or> (9 \<le> n \<and> n \<le> 13) \<or> (28 \<le> n \<and> n \<le> 31))"

definition is_digit :: "char \<Rightarrow> bool" where
  "is_digit c = (let n = (of_char c :: nat) in 48 \<le> n \<and> n \<le> 57)"

definition is_upper :: "char \<Rightarrow> bool" where
  "is_upper c = (let n = (of_char c :: nat) in 65 \<le> n \<and> n \<le> 90)"

definition is_word :: "char \<Rightarrow> bool" where
  "is_word c =
     (let n = (of_char c :: nat)
      in (48 \<le> n \<and> n \<le> 57) \<or> (65 \<le> n \<and> n \<le> 90) \<or> (97 \<le> n \<and> n \<le> 122) \<or> n = 95)"

text \<open>An ASCII capital and its small letter differ in bit 5 only (the code point plus 32).\<close>

definition lower_char :: "char \<Rightarrow> char" where
  "lower_char c =
     (if is_upper c
      then (case c of Char b0 b1 b2 b3 b4 b5 b6 b7 \<Rightarrow> Char b0 b1 b2 b3 b4 True b6 b7)
      else c)"

definition lower :: "string \<Rightarrow> string" where
  "lower s = map lower_char s"

definition strip :: "string \<Rightarrow> string" where
  "strip s = rev (dropWhile is_space (rev (dropWhile is_space s)))"

text \<open>\<^verbatim>\<open>sub in s\<close> on strings: \<open>sub\<close> occurs in \<open>s\<close> as a contiguous substring.\<close>

fun str_in :: "string \<Rightarrow> string \<Rightarrow> bool" where
  "str_in sub [] = (sub = [])"
| "str_in sub (c # cs) = (prefix sub (c # cs) \<or> str_in sub cs)"

text \<open>\<^verbatim>\<open>any(w in s for w in ws)\<close>.\<close>

definition any_in :: "string list \<Rightarrow> string \<Rightarrow> bool" where
  "any_in ws s = list_ex (\<lambda>w. str_in w s) ws"

text \<open>\<^verbatim>\<open>sep.join(parts)\<close>.\<close>

fun join :: "string \<Rightarrow> string list \<Rightarrow> string" where
  "join sep [] = []"
| "join sep [x] = x"
| "join sep (x # y # ys) = x @ sep @ join sep (y # ys)"

text \<open>
  Slices. \<^verbatim>\<open>xs[:k]\<close> keeps the first \<open>k\<close> elements, and for a negative \<open>k\<close> all but the
  last \<open>-k\<close>; \<^verbatim>\<open>xs[i:]\<close> drops the first \<open>i\<close> elements, and for a negative \<open>i\<close> keeps the
  last \<open>-i\<close> (the whole list when it is shorter).
\<close>

definition slice_to :: "int \<Rightarrow> 'a list \<Rightarrow> 'a list" where
  "slice_to k xs = (if 0 \<le> k then take (nat k) xs else take (nat (int (length xs) + k)) xs)"

definition slice_from :: "int \<Rightarrow> 'a list \<Rightarrow> 'a list" where
  "slice_from i xs = (if 0 \<le> i then drop (nat i) xs else drop (nat (int (length xs) + i)) xs)"

text \<open>
  \<^verbatim>\<open>str(n)\<close> and \<^verbatim>\<open>int(s)\<close> in decimal. \<^verbatim>\<open>int\<close> raises ValueError on a string of more
  digits than the interpreter's limit (\<^verbatim>\<open>sys.int_max_str_digits\<close>, 4300 by default);
  leading zeros count.
\<close>

definition digit_char :: "nat \<Rightarrow> char" where
  "digit_char d = (''0123456789'' ! d)"

function str_nat :: "nat \<Rightarrow> string" where
  "str_nat n = (if n < 10 then [digit_char n] else str_nat (n div 10) @ [digit_char (n mod 10)])"
  by pat_completeness auto
termination
  by (relation "measure id") auto

definition str_int :: "int \<Rightarrow> string" where
  "str_int i = (if i < 0 then CHR ''-'' # str_nat (nat (- i)) else str_nat (nat i))"

definition digit_val :: "char \<Rightarrow> int" where
  "digit_val c = int (of_char c) - 48"

definition decimal_value :: "string \<Rightarrow> int" where
  "decimal_value ds = foldl (\<lambda>n c. 10 * n + digit_val c) 0 ds"

definition int_max_str_digits :: nat where
  "int_max_str_digits = 4300"

definition py_int :: "string \<Rightarrow> exn + int" where
  "py_int ds = (if length ds > int_max_str_digits then Inl ValueError else Inr (decimal_value ds))"

section \<open>Intent classifier (hr\_assistant.py, ask\_query.py)\<close>

definition search_keywords :: "string list" where
  "search_keywords =
     [''find'', ''show'', ''get'', ''best'', ''top'', ''candidates'', ''profiles'',
      ''cvs'', ''resumes'', ''engineers'', ''developers'', ''skills'', ''experience'',
      ''python'', ''java'', ''mechanical'', ''electrical'', ''software'', ''who'']"

definition is_cv_search_query :: "string \<Rightarrow> bool" where
  "is_cv_search_query query = any_in search_keywords (lower query)"

definition context_indicators :: "string list" where
  "context_indicators =
     [''that'', ''this'', ''them'', ''those'', ''previous'', ''earlier'', ''before'',
      ''also'', ''too'', ''more'', ''another'', ''what about'', ''how about'']"

definition needs_context :: "string \<Rightarrow> bool" where
  "needs_context query = any_in context_indicators (lower query)"

text \<open>
  \<^verbatim>\<open>re.search\<close> for the two patterns of the repository, \<^verbatim>\<open>\b(\d+)\b\<close> (\<open>tb = True\<close>) and
  \<^verbatim>\<open>\b(\d+)\<close> (\<open>tb = False\<close>). The scan goes left to right; \<open>pw\<close> says whether the
  character before the current position is a word character. A match starts at a digit
  that follows a word boundary; \<^verbatim>\<open>\d+\<close> is greedy and takes the whole run of digits, and a
  shorter run can never be followed by \<^verbatim>\<open>\b\<close>, since a digit follows it. The value is
  group 1 of the leftmost match.
\<close>

definition boundary_after :: "string \<Rightarrow> bool" where
  "boundary_after rest = (case rest of [] \<Rightarrow> True | d # _ \<Rightarrow> \<not> is_word d)"

fun re_search_int :: "bool \<Rightarrow> bool \<Rightarrow> string \<Rightarrow> string option" where
  "re_search_int tb pw [] = None"
| "re_search_int tb pw (c # cs) =
     (if is_digit c \<and> \<not> pw \<and> (\<not> tb \<or> boundary_after (dropWhile is_digit cs))
      then Some (c # takeWhile is_digit cs)
      else re_search_int tb (is_word c) cs)"

text \<open>\<^verbatim>\<open>HRAssistant.extract_cv_count\<close>.\<close>

definition extract_cv_count :: "string \<Rightarrow> exn + int" where
  "extract_cv_count query =
     (let query_lower = lower query
      in case re_search_int True False query_lower of
           Some g \<Rightarrow> (case py_int g of Inl e \<Rightarrow> Inl e | Inr n \<Rightarrow> Inr (min n 10))
         | None \<Rightarrow>
             if any_in [''all'', ''every''] query_lower then Inr 5
             else if any_in [''one'', ''single'', ''best'', ''top''] query_lower then Inr 3
             else Inr 4)"


section \<open>JSON values\<close>

text \<open>
  What \<^verbatim>\<open>json.loads\<close> returns. A float is modelled by the rational it denotes: only
  whether it is zero matters below. A dict is an association list read from the left.
\<close>

datatype json =
    JNull
  | JBool bool
  | JInt int
  | JFloat rat
  | JStr string
  | JList "json list"
  | JDict "(string \<times> json) list"

text \<open>Truth value of a JSON value in a condition.\<close>

fun truthy :: "json \<Rightarrow> bool" where
  "truthy JNull = False"
| "truthy (JBool b) = b"
| "truthy (JInt i) = (i \<noteq> 0)"
| "truthy (JFloat r) = (r \<noteq> 0)"
| "truthy (JStr s) = (s \<noteq> [])"
| "truthy (JList xs) = (xs \<noteq> [])"
| "truthy (JDict kvs) = (kvs \<noteq> [])"

text \<open>\<^verbatim>\<open>d.get(k)\<close> and \<^verbatim>\<open>d.get(k, default)\<close>.\<close>

definition dict_get :: "(string \<times> json) list \<Rightarrow> string \<Rightarrow> json" where
  "dict_get d k = (case map_of d k of None \<Rightarrow> JNull | Some v \<Rightarrow> v)"

definition dict_get_or :: "(string \<times> json) list \<Rightarrow> string \<Rightarrow> json \<Rightarrow> json" where
  "dict_get_or d k dflt = (case map_of d k of None \<Rightarrow> dflt | Some v \<Rightarrow> v)"

text \<open>
  \<^verbatim>\<open>f"{v}"\<close>: a string is inserted as it is. How the runtime prints floats, lists and
  dicts is the parameter \<open>pstr\<close>.
\<close>

definition py_str :: "(json \<Rightarrow> string) \<Rightarrow> json \<Rightarrow> string" where
  "py_str pstr v =
     (case v of
        JStr s \<Rightarrow> s
      | JNull \<Rightarrow> ''None''
      | JBool b \<Rightarrow> (if b then ''True'' else ''False'')
      | JInt i \<Rightarrow> str_int i
      | _ \<Rightarrow> pstr v)"

text \<open>\<^verbatim>\<open>sep.join(items)\<close> raises TypeError unless every item is a string.\<close>

fun the_strs :: "json list \<Rightarrow> string list option" where
  "the_strs [] = Some []"
| "the_strs (JStr s # vs) = (case the_strs vs of None \<Rightarrow> None | Some ss \<Rightarrow> Some (s # ss))"
| "the_strs (_ # vs) = None"

definition join_json :: "string \<Rightarrow> json list \<Rightarrow> exn + string" where
  "join_json sep items = (case the_strs items of None \<Rightarrow> Inl TypeError | Some ss \<Rightarrow> Inr (join sep ss))"

section \<open>Prompt composer: profile blocks (hr\_assistant.py)\<close>

text \<open>
  \<^verbatim>\<open>HRAssistant.format_cv_summary\<close>. \<^verbatim>\<open>cv_summary['Education'][:2]\<close> slices a list or a
  string (whose characters are no dicts, so nothing is collected) and raises on a number,
  a boolean or a dict (TypeError; KeyError from Python 3.12 on for a dict, modelled as
  TypeError too).
\<close>

definition edu_entry :: "json \<Rightarrow> json list" where
  "edu_entry edu =
     (case edu of
        JDict d \<Rightarrow>
          (let degree = dict_get_or d ''Degree'' (JStr []);
               school = dict_get_or d ''School'' (JStr [])
           in if truthy degree then [degree] else if truthy school then [school] else [])
      | _ \<Rightarrow> [])"

definition exp_entry :: "(json \<Rightarrow> string) \<Rightarrow> json \<Rightarrow> json list" where
  "exp_entry pstr xp =
     (case xp of
        JDict d \<Rightarrow>
          (let company = dict_get_or d ''Company'' (JStr []);
               role = dict_get_or d ''Role'' (JStr [])
           in if truthy role \<and> truthy company
              then [JStr (py_str pstr role @ '' at '' @ py_str pstr company)]
              else if truthy role then [role]
              else if truthy company then [company]
              else [])
      | _ \<Rightarrow> [])"

text \<open>The line a list-valued section adds (none when nothing was collected).\<close>

definition section_line :: "string \<Rightarrow> (json \<Rightarrow> json list) \<Rightarrow> json \<Rightarrow> exn + string list" where
  "section_line label entry v =
     (if \<not> truthy v then Inr []
      else case v of
        JList xs \<Rightarrow>
          (let collected = concat (map entry (slice_to 2 xs))
           in if collected = [] then Inr []
              else case join_json '' | '' collected of
                     Inl e \<Rightarrow> Inl e
                   | Inr text \<Rightarrow> Inr [label @ text])
      | JStr s \<Rightarrow> Inr []
      | _ \<Rightarrow> Inl TypeError)"

definition skills_line :: "json \<Rightarrow> exn + string list" where
  "skills_line skills =
     (if \<not> truthy skills then Inr []
      else case skills of
        JList xs \<Rightarrow>
          (case join_json '', '' (slice_to 10 xs) of
             Inl e \<Rightarrow> Inl e
           | Inr skills_text \<Rightarrow> Inr [''Skills: '' @ skills_text])
      | _ \<Rightarrow> Inr [])"

definition newline :: string where
  "newline = [CHR 0x0A]"

definition format_cv_summary :: "(json \<Rightarrow> string) \<Rightarrow> json \<Rightarrow> int \<Rightarrow> exn + string" where
  "format_cv_summary pstr cv_summary rank =
     (case cv_summary of
        JDict d \<Rightarrow>
          (let lines0 = [''CANDIDATE '' @ str_int rank @ '':''];
               lines1 = (if truthy (dict_get d ''Name'')
                         then lines0 @ [''Name: '' @ py_str pstr (dict_get d ''Name'')]
                         else lines0)
           in case section_line ''Education: '' edu_entry (dict_get d ''Education'') of
                Inl e \<Rightarrow> Inl e
              | Inr edu \<Rightarrow>
                  (case section_line ''Experience: '' (exp_entry pstr) (dict_get d ''Experience'') of
                     Inl e \<Rightarrow> Inl e
                   | Inr xp \<Rightarrow>
                       (case skills_line (dict_get d ''Skills'') of
                          Inl e \<Rightarrow> Inl e
                        | Inr sk \<Rightarrow> Inr (join newline (lines1 @ edu @ xp @ sk) @ newline))))
      | _ \<Rightarrow> Inl AttributeError)"

section \<open>The profile store and the collaborators (database.py)\<close>

text \<open>
  The \<^verbatim>\<open>summary_json\<close> column is NULL or empty (\<open>NoText\<close>), a text \<^verbatim>\<open>json.loads\<close>
  rejects (\<open>BadText\<close>), or the text of a JSON value.
\<close>

datatype summary_col = NoText | BadText | JsonText json

record cv_row =
  cv_id :: int
  cv_user_id :: int
  filename :: string
  candidate_name :: "string option"
  summary_json :: summary_col

record 'v embedding_row =
  emb_cv_id :: int
  emb_user_id :: int
  embedding_data :: 'v
  embedding_text :: string
  created_at :: int

text \<open>A row of \<^verbatim>\<open>get_user_embeddings\<close>: an embedding joined with its CV.\<close>

record 'v emb_data =
  ed_cv_id :: int
  ed_filename :: string
  ed_candidate_name :: "string option"
  ed_embedding :: 'v
  ed_embedding_text :: string

text \<open>A ranked result, the dict \<^verbatim>\<open>search_user_cvs\<close> builds.\<close>

record 's result =
  r_cv_id :: int
  r_filename :: string
  r_candidate_name :: "string option"
  similarity :: 's
  r_embedding_text :: string

record 's chat_row =
  chat_user_id :: int
  chat_query :: string
  query_type :: string
  response_text :: string
  cv_results :: "'s result list option"

text \<open>The calls made to the collaborators, in order.\<close>

datatype call =
    Embed string
  | GetUserEmbeddings int
  | GetCvById int int
  | RunLlama string
  | SaveChat int

text \<open>
  The world one query runs in: the three tables, whether the database answers, the
  embedding provider (\<^verbatim>\<open>embed_model.get_embedding\<close>), the similarity routine
  (\<^verbatim>\<open>cosine_similarity\<close>, with scores in a linear order), the response generator (what
  \<^verbatim>\<open>llama_inference.run_llama\<close> returns for a prompt, \<^verbatim>\<open>max_tokens\<close> and
  \<^verbatim>\<open>temperature\<close>), the runtime's printing of JSON values, and the calls made so far.
\<close>

record ('v, 's) world =
  cvs :: "cv_row list"
  cv_embeddings :: "'v embedding_row list"
  chats :: "'s chat_row list"
  db_up :: bool
  get_embedding :: "string \<Rightarrow> exn + 'v"
  cosine_similarity :: "'v \<Rightarrow> 'v \<Rightarrow> exn + 's"
  generator :: "string \<Rightarrow> int \<Rightarrow> rat \<Rightarrow> exn + string"
  str_of :: "json \<Rightarrow> string"
  calls :: "call list"

definition called :: "call \<Rightarrow> ('v, 's) world \<Rightarrow> ('v, 's) world" where
  "called c w = w\<lparr>calls := calls w @ [c]\<rparr>"

text \<open>
  A stable sort by descending key: \<^verbatim>\<open>list.sort(key=..., reverse=True)\<close>, and
  \<^verbatim>\<open>ORDER BY ... DESC\<close> (where rows with equal keys keep the table's order).
\<close>

fun insert_desc :: "('a \<Rightarrow> 'k::linorder) \<Rightarrow> 'a \<Rightarrow> 'a list \<Rightarrow> 'a list" where
  "insert_desc key x [] = [x]"
| "insert_desc key x (y # ys) =
     (if key y \<le> key x then x # y # ys else y # insert_desc key x ys)"

definition sort_desc :: "('a \<Rightarrow> 'k::linorder) \<Rightarrow> 'a list \<Rightarrow> 'a list" where
  "sort_desc key xs = foldr (insert_desc key) xs []"

definition joined :: "'v embedding_row \<Rightarrow> cv_row \<Rightarrow> 'v emb_data" where
  "joined e c =
     \<lparr>ed_cv_id = emb_cv_id e, ed_filename = filename c, ed_candidate_name = candidate_name c,
      ed_embedding = embedding_data e, ed_embedding_text = embedding_text e\<rparr>"

text \<open>\<^verbatim>\<open>DatabaseManager.get_user_embeddings\<close>.\<close>

definition get_user_embeddings :: "('v, 's) world \<Rightarrow> int \<Rightarrow> exn + 'v emb_data list" where
  "get_user_embeddings w user_id =
     (if \<not> db_up w then Inl ExternalError
      else Inr (concat (map (\<lambda>e. map (joined e) (filter (\<lambda>c. cv_id c = emb_cv_id e) (cvs w)))
                  (sort_desc created_at (filter (\<lambda>e. emb_user_id e = user_id) (cv_embeddings w))))))"

text \<open>
  \<^verbatim>\<open>DatabaseManager.get_cv_by_id\<close>, reduced to the parsed \<^verbatim>\<open>summary_json\<close> of the row
  found (\<open>None\<close> when the column is empty).
\<close>

definition get_cv_by_id :: "('v, 's) world \<Rightarrow> int \<Rightarrow> int \<Rightarrow> exn + json option option" where
  "get_cv_by_id w cid user_id =
     (if \<not> db_up w then Inl ExternalError
      else case find (\<lambda>c. cv_id c = cid \<and> cv_user_id c = user_id) (cvs w) of
        None \<Rightarrow> Inr None
      | Some cv \<Rightarrow>
          (case summary_json cv of
             NoText \<Rightarrow> Inr (Some None)
           | BadText \<Rightarrow> Inl ValueError
           | JsonText j \<Rightarrow> Inr (Some (Some j))))"

section \<open>Similarity ranker (faiss\_store.py)\<close>

fun score_all :: "('v \<Rightarrow> 'v \<Rightarrow> exn + 's) \<Rightarrow> 'v \<Rightarrow> 'v emb_data list \<Rightarrow> exn + 's result list" where
  "score_all sim q [] = Inr []"
| "score_all sim q (emb # embs) =
     (case sim q (ed_embedding emb) of
        Inl e \<Rightarrow> Inl e
      | Inr s \<Rightarrow>
          (case score_all sim q embs of
             Inl e \<Rightarrow> Inl e
           | Inr rs \<Rightarrow>
               Inr (\<lparr>r_cv_id = ed_cv_id emb, r_filename = ed_filename emb,
                     r_candidate_name = ed_candidate_name emb, similarity = s,
                     r_embedding_text = ed_embedding_text emb\<rparr> # rs)))"

text \<open>\<^verbatim>\<open>PostgreSQLVectorStore.search_user_cvs\<close>: any exception inside gives the empty list.\<close>

definition search_user_cvs ::
  "('v, 's::linorder) world \<Rightarrow> int \<Rightarrow> string \<Rightarrow> int \<Rightarrow> 's result list \<times> ('v, 's) world" where
  "search_user_cvs w user_id query top_k =
     (let w1 = called (Embed query) w
      in case get_embedding w query of
           Inl e \<Rightarrow> ([], w1)
         | Inr query_embedding \<Rightarrow>
             (let w2 = called (GetUserEmbeddings user_id) w1
              in case get_user_embeddings w user_id of
                   Inl e \<Rightarrow> ([], w2)
                 | Inr user_embeddings \<Rightarrow>
                     if user_embeddings = [] then ([], w2)
                     else (case score_all (cosine_similarity w) query_embedding user_embeddings of
                             Inl e \<Rightarrow> ([], w2)
                           | Inr results \<Rightarrow> (slice_to top_k (sort_desc similarity results), w2))))"

text \<open>\<^verbatim>\<open>PostgreSQLVectorStore.get_cv_full_summary\<close>.\<close>

definition get_cv_full_summary :: "('v, 's) world \<Rightarrow> int \<Rightarrow> int \<Rightarrow> json option" where
  "get_cv_full_summary w cid user_id =
     (case get_cv_by_id w cid user_id of
        Inr (Some (Some j)) \<Rightarrow> (if truthy j then Some j else None)
      | _ \<Rightarrow> None)"

section \<open>Context manager and orchestrator (hr\_assistant.py)\<close>

record turn =
  role :: string
  content :: string

record hr_assistant =
  user_id :: int
  conversation_history :: "turn list"
  max_history_length :: int

text \<open>\<^verbatim>\<open>HRAssistant.__init__\<close>.\<close>

definition new_assistant :: "int \<Rightarrow> hr_assistant" where
  "new_assistant uid = \<lparr>user_id = uid, conversation_history = [], max_history_length = 10\<rparr>"

text \<open>
  What \<^verbatim>\<open>handle_cv_search\<close> returns: a bare string on three of its paths, the pair
  \<^verbatim>\<open>(response, cv_results)\<close> on the fourth.
\<close>

datatype 's ret = RStr string | RTuple string "'s result list"

text \<open>
  What \<^verbatim>\<open>process_query\<close> passes to \<^verbatim>\<open>add_to_history\<close> as \<^verbatim>\<open>cv_results\<close>: a result
  list, \<^verbatim>\<open>None\<close>, or a one-character string (the second half of an unpacked
  two-character string).
\<close>

datatype 's cvres = CvList "'s result list" | CvChar char | CvNone

text \<open>
  \<^verbatim>\<open>response, cv_results = value\<close>: a pair unpacks into its components, a string into
  its characters when it has exactly two, and raises ValueError otherwise.
\<close>

definition unpack2 :: "'s ret \<Rightarrow> exn + string \<times> 's cvres" where
  "unpack2 v =
     (case v of
        RTuple response rs \<Rightarrow> Inr (response, CvList rs)
      | RStr s \<Rightarrow> (case s of [c1, c2] \<Rightarrow> Inr ([c1], CvChar c2) | _ \<Rightarrow> Inl ValueError))"

definition no_match_msg :: string where
  "no_match_msg = ''I couldn't find any relevant CVs for your query.''"

definition search_fallback_msg :: string where
  "search_fallback_msg =
     ''I found the profiles but couldn't generate a response. Please try rephrasing your query.''"

definition search_error_msg :: string where
  "search_error_msg = ''Sorry, I encountered an error processing your request.''"

definition chat_fallback_msg :: string where
  "chat_fallback_msg =
     ''I'm here to help with HR and candidate questions. What would you like to know?''"

definition chat_error_msg :: string where
  "chat_error_msg = ''I'm here to help! Try asking me about candidates or CVs.''"

definition empty_query_msg :: string where
  "empty_query_msg = ''Please ask me something!''"

text \<open>
  \<^verbatim>\<open>HRAssistant.add_to_history\<close>: the two turns are appended and the list is cut to its
  last \<open>2 * max_history_length\<close> entries; then the exchange is saved, unless building the
  \<^verbatim>\<open>ChatCreate\<close> record or the insert fails (both are caught).
\<close>

definition add_to_history ::
  "('v, 's) world \<Rightarrow> hr_assistant \<Rightarrow> string \<Rightarrow> string \<Rightarrow> 's cvres \<Rightarrow> hr_assistant \<times> ('v, 's) world" where
  "add_to_history w a user_message assistant_response cvr =
     (let h = conversation_history a @
                [\<lparr>role = ''user'', content = user_message\<rparr>,
                 \<lparr>role = ''assistant'', content = assistant_response\<rparr>];
          h' = (if int (length h) > max_history_length a * 2
                then slice_from (- (max_history_length a * 2)) h else h);
          a' = a\<lparr>conversation_history := h'\<rparr>;
          qt = (if is_cv_search_query user_message then ''cv_search'' else ''general_chat'');
          stored = (if qt = ''cv_search'' then cvr else CvNone)
      in case stored of
           CvChar c \<Rightarrow> (a', w)
         | _ \<Rightarrow>
            (let w1 = called (SaveChat (user_id a)) w
             in if \<not> db_up w then (a', w1)
                else (a', w1\<lparr>chats := chats w1 @
                        [\<lparr>chat_user_id = user_id a, chat_query = user_message, query_type = qt,
                          response_text = assistant_response,
                          cv_results = (case stored of
                                          CvList rs \<Rightarrow> (if rs = [] then None else Some rs)
                                        | _ \<Rightarrow> None)\<rparr>]\<rparr>)))"

text \<open>\<^verbatim>\<open>HRAssistant.build_history_context\<close>.\<close>

definition history_line :: "turn \<Rightarrow> string" where
  "history_line msg =
     (if role msg = ''user'' then ''User'' else ''Assistant'') @ '': '' @
     slice_to 100 (content msg) @ ''...'' @ newline"

definition build_history_context :: "hr_assistant \<Rightarrow> string" where
  "build_history_context a =
     (if conversation_history a = [] then []
      else ''Previous conversation:'' @ newline @
           concat (map history_line (slice_from (- 6) (conversation_history a))) @ newline)"

text \<open>\<^verbatim>\<open>HRAssistant.load_cv_summary\<close>.\<close>

definition load_cv_summary ::
  "('v, 's) world \<Rightarrow> hr_assistant \<Rightarrow> int \<Rightarrow> json option \<times> ('v, 's) world" where
  "load_cv_summary w a cid =
     (get_cv_full_summary w cid (user_id a), called (GetCvById cid (user_id a)) w)"

text \<open>
  \<^verbatim>\<open>HRAssistant.build_search_prompt\<close>. The loop over \<^verbatim>\<open>enumerate(cv_results, 1)\<close> is
  \<open>candidate_blocks\<close>; an exception of \<open>format_cv_summary\<close> leaves the function.
\<close>

fun candidate_blocks ::
  "('v, 's) world \<Rightarrow> hr_assistant \<Rightarrow> int \<Rightarrow> 's result list \<Rightarrow> (exn + string) \<times> ('v, 's) world" where
  "candidate_blocks w a i [] = (Inr [], w)"
| "candidate_blocks w a i (r # rs) =
     (case (if r_cv_id r \<noteq> 0 then load_cv_summary w a (r_cv_id r) else (None, w)) of
        (None, w1) \<Rightarrow> candidate_blocks w1 a (i + 1) rs
      | (Some cv_summary, w1) \<Rightarrow>
          (case format_cv_summary (str_of w) cv_summary i of
             Inl e \<Rightarrow> (Inl e, w1)
           | Inr block \<Rightarrow>
               (case candidate_blocks w1 a (i + 1) rs of
                  (Inl e, w2) \<Rightarrow> (Inl e, w2)
                | (Inr blocks, w2) \<Rightarrow> (Inr (block @ blocks), w2))))"

definition build_search_prompt ::
  "('v, 's) world \<Rightarrow> hr_assistant \<Rightarrow> string \<Rightarrow> 's result list \<Rightarrow> (exn + string) \<times> ('v, 's) world" where
  "build_search_prompt w a user_query rs =
     (let prompt = (if needs_context user_query then build_history_context a else []) @
                   ''You are an HR assistant. Answer this question: '' @ user_query @ newline @
                   ''Only use relevant candidate data. Ignore irrelevant information.'' @
                   newline @ newline @ ''CANDIDATES:'' @ newline
      in case candidate_blocks w a 1 rs of
           (Inl e, w1) \<Rightarrow> (Inl e, w1)
         | (Inr blocks, w1) \<Rightarrow>
             (Inr (prompt @ blocks @ newline @ ''Provide direct, focused short answer only.''), w1))"

text \<open>\<^verbatim>\<open>HRAssistant.build_chat_prompt\<close>.\<close>

definition build_chat_prompt :: "hr_assistant \<Rightarrow> string \<Rightarrow> string" where
  "build_chat_prompt a user_query =
     (if conversation_history a \<noteq> [] then build_history_context a else []) @
     ''You are a helpful HR assistant. User said: '' @ [CHR 0x27] @ user_query @
     [CHR 0x27] @ ''. Give a brief, friendly response.''"

text \<open>
  \<^verbatim>\<open>HRAssistant.handle_cv_search\<close>. The count is extracted outside the \<^verbatim>\<open>try\<close>: an
  exception of \<^verbatim>\<open>extract_cv_count\<close> leaves the function before anything is searched.
\<close>

definition handle_cv_search ::
  "('v, 's::linorder) world \<Rightarrow> hr_assistant \<Rightarrow> string \<Rightarrow> (exn + 's ret) \<times> ('v, 's) world" where
  "handle_cv_search w a user_query =
     (case extract_cv_count user_query of
        Inl e \<Rightarrow> (Inl e, w)
      | Inr top_k \<Rightarrow>
         (case search_user_cvs w (user_id a) user_query top_k of
           (rs, w1) \<Rightarrow>
             if rs = [] then (Inr (RStr no_match_msg), w1)
             else (case build_search_prompt w1 a user_query rs of
                     (Inl e, w2) \<Rightarrow> (Inl e, w2)
                   | (Inr prompt, w2) \<Rightarrow>
                       (let w3 = called (RunLlama prompt) w2
                        in case generator w prompt 600 (7 / 10) of
                             Inl e \<Rightarrow> (Inr (RStr search_error_msg), w3)
                           | Inr response \<Rightarrow>
                               if response = [] \<or> strip response = []
                               then (Inr (RStr search_fallback_msg), w3)
                               else (Inr (RTuple response rs), w3)))))"

text \<open>\<^verbatim>\<open>HRAssistant.handle_chat\<close>.\<close>

definition simple_responses :: "(string \<times> string) list" where
  "simple_responses =
     [(''hi'', ''Hello! I'm your HR assistant. I can help you find candidates and answer questions about CVs. What would you like to know?''),
      (''hello'', ''Hi there! How can I help you with candidate profiles today?''),
      (''help'', ''I can help you find candidates by searching through CVs. Try asking things like 'find Python developers' or 'show me mechanical engineers'.''),
      (''thanks'', ''You're welcome! Feel free to ask about any candidates or profiles.''),
      (''thank you'', ''You're welcome! Feel free to ask about any candidates or profiles.'')]"

definition handle_chat ::
  "('v, 's) world \<Rightarrow> hr_assistant \<Rightarrow> string \<Rightarrow> string \<times> ('v, 's) world" where
  "handle_chat w a user_query =
     (let query_lower = strip (lower user_query)
      in case find (\<lambda>(key, response). str_in key query_lower) simple_responses of
           Some (key, response) \<Rightarrow> (response, w)
         | None \<Rightarrow>
             (let prompt = build_chat_prompt a user_query;
                  w1 = called (RunLlama prompt) w
              in case generator w prompt 150 (8 / 10) of
                   Inl e \<Rightarrow> (chat_error_msg, w1)
                 | Inr response \<Rightarrow>
                     if response = [] \<or> strip response = [] then (chat_fallback_msg, w1)
                     else (response, w1)))"

text \<open>
  \<^verbatim>\<open>HRAssistant.process_query\<close>: the outcome (the returned string, or the exception that
  leaves the call), the assistant and the world afterwards.
\<close>

definition process_query ::
  "('v, 's::linorder) world \<Rightarrow> hr_assistant \<Rightarrow> string \<Rightarrow>
     (exn + string) \<times> hr_assistant \<times> ('v, 's) world" where
  "process_query w a user_query =
     (if strip user_query = [] then (Inr empty_query_msg, a, w)
      else if is_cv_search_query user_query
      then (case handle_cv_search w a user_query of
              (Inl e, w1) \<Rightarrow> (Inl e, a, w1)
            | (Inr v, w1) \<Rightarrow>
                (case unpack2 v of
                   Inl e \<Rightarrow> (Inl e, a, w1)
                 | Inr (response, cvr) \<Rightarrow>
                     (case add_to_history w1 a user_query response cvr of
                        (a', w2) \<Rightarrow> (Inr response, a', w2))))
      else (case handle_chat w a user_query of
              (response, w1) \<Rightarrow>
                (case add_to_history w1 a user_query response CvNone of
                   (a', w2) \<Rightarrow> (Inr response, a', w2))))"

section \<open>Response generator client (llama\_inference.py)\<close>

text \<open>
  What an HTTP request to the Ollama server comes to: \<^verbatim>\<open>requests\<close> raises, or a response
  arrives with its status code, its text and, when the text is JSON, the value it denotes.
\<close>

datatype http_reply = Raised exn | Response int string "json option"

text \<open>
  The server during one call of \<^verbatim>\<open>run_llama\<close>: the replies to the three
  \<^verbatim>\<open>GET /api/tags\<close> requests the call can make, in order, the reply to
  \<^verbatim>\<open>POST /api/generate\<close> for a prompt, model, \<^verbatim>\<open>num_predict\<close> and \<^verbatim>\<open>temperature\<close>,
  whether the JSON decode error of the installed \<^verbatim>\<open>requests\<close> is a
  \<^verbatim>\<open>RequestException\<close>, and how the runtime prints an exception and a list of names.
\<close>

record ollama =
  tags_first :: http_reply
  tags_second :: http_reply
  tags_third :: http_reply
  post_generate :: "string \<Rightarrow> string \<Rightarrow> int \<Rightarrow> rat \<Rightarrow> http_reply"
  decode_error_is_request_exception :: bool
  str_exn :: "exn \<Rightarrow> string"
  repr_list :: "json list \<Rightarrow> string"

text \<open>\<^verbatim>\<open>isinstance(e, requests.RequestException)\<close>.\<close>

definition is_request_exception :: "exn \<Rightarrow> bool" where
  "is_request_exception e =
     (case e of
        Timeout \<Rightarrow> True
      | RequestException m \<Rightarrow> True
      | JSONDecodeError b \<Rightarrow> b
      | _ \<Rightarrow> False)"

text \<open>\<^verbatim>\<open>OllamaClient.is_available\<close>.\<close>

definition is_available :: "http_reply \<Rightarrow> exn + bool" where
  "is_available reply =
     (case reply of
        Raised e \<Rightarrow> (if is_request_exception e then Inr False else Inl e)
      | Response status text body \<Rightarrow> Inr (status = 200))"

text \<open>
  \<^verbatim>\<open>[model['name'] for model in data.get('models', [])]\<close>: \<open>data\<close> must be a dict, the
  value under \<^verbatim>\<open>'models'\<close> iterable, and each element a dict with the key \<^verbatim>\<open>'name'\<close>.
  Iterating a string or a dict yields strings, which cannot be indexed by \<^verbatim>\<open>'name'\<close>.
\<close>

fun model_name_of :: "json \<Rightarrow> exn + json" where
  "model_name_of (JDict m) = (case map_of m ''name'' of None \<Rightarrow> Inl KeyError | Some n \<Rightarrow> Inr n)"
| "model_name_of _ = Inl TypeError"

fun model_names_of :: "json list \<Rightarrow> exn + json list" where
  "model_names_of [] = Inr []"
| "model_names_of (m # ms) =
     (case model_name_of m of
        Inl e \<Rightarrow> Inl e
      | Inr n \<Rightarrow> (case model_names_of ms of Inl e \<Rightarrow> Inl e | Inr ns \<Rightarrow> Inr (n # ns)))"

definition model_names :: "json \<Rightarrow> exn + json list" where
  "model_names data =
     (case data of
        JDict d \<Rightarrow>
          (case dict_get_or d ''models'' (JList []) of
             JList ms \<Rightarrow> model_names_of ms
           | JStr s \<Rightarrow> (if s = [] then Inr [] else Inl TypeError)
           | JDict kvs \<Rightarrow> (if kvs = [] then Inr [] else Inl TypeError)
           | _ \<Rightarrow> Inl TypeError)
      | _ \<Rightarrow> Inl AttributeError)"

text \<open>\<^verbatim>\<open>OllamaClient.get_available_models\<close>.\<close>

definition get_available_models :: "ollama \<Rightarrow> http_reply \<Rightarrow> exn + json list" where
  "get_available_models srv reply =
     (case reply of
        Raised e \<Rightarrow> (if is_request_exception e then Inr [] else Inl e)
      | Response status text body \<Rightarrow>
          if status = 200
          then (case body of
                  None \<Rightarrow>
                    (if decode_error_is_request_exception srv then Inr []
                     else Inl (JSONDecodeError False))
                | Some data \<Rightarrow> model_names data)
          else Inr [])"

text \<open>
  \<^verbatim>\<open>any(model_name in model for model in models)\<close>: a substring test on a string,
  membership on a list, key membership on a dict, TypeError on anything else; the scan
  stops at the first hit.
\<close>

fun any_model :: "string \<Rightarrow> json list \<Rightarrow> exn + bool" where
  "any_model model_name [] = Inr False"
| "any_model model_name (m # ms) =
     (case m of
        JStr s \<Rightarrow> (if str_in model_name s then Inr True else any_model model_name ms)
      | JList xs \<Rightarrow> (if JStr model_name \<in> set xs then Inr True else any_model model_name ms)
      | JDict kvs \<Rightarrow> (if model_name \<in> set (map fst kvs) then Inr True else any_model model_name ms)
      | _ \<Rightarrow> Inl TypeError)"

text \<open>\<^verbatim>\<open>OllamaClient.check_model_available\<close>.\<close>

definition check_model_available :: "ollama \<Rightarrow> http_reply \<Rightarrow> string \<Rightarrow> exn + bool" where
  "check_model_available srv reply model_name =
     (case get_available_models srv reply of
        Inl e \<Rightarrow> Inl e
      | Inr models \<Rightarrow> any_model model_name models)"

text \<open>
  \<^verbatim>\<open>OllamaClient.generate\<close>. The \<^verbatim>\<open>except\<close> clauses are tried in the order of the
  source: \<^verbatim>\<open>requests.Timeout\<close>, \<^verbatim>\<open>requests.RequestException\<close>,
  \<^verbatim>\<open>json.JSONDecodeError\<close>; any other exception leaves the function.
\<close>

definition generate_except :: "ollama \<Rightarrow> exn \<Rightarrow> exn + string" where
  "generate_except srv e =
     (if e = Timeout then Inr ''Error: Request timed out (5 minutes)''
      else if is_request_exception e then Inr (''Error: Network request failed - '' @ str_exn srv e)
      else (case e of
              JSONDecodeError b \<Rightarrow> Inr ''Error: Invalid JSON response from Ollama''
            | _ \<Rightarrow> Inl e))"

definition generate :: "ollama \<Rightarrow> string \<Rightarrow> string \<Rightarrow> int \<Rightarrow> rat \<Rightarrow> exn + string" where
  "generate srv prompt model num_predict temperature =
     (case post_generate srv prompt model num_predict temperature of
        Raised e \<Rightarrow> generate_except srv e
      | Response status text body \<Rightarrow>
          if status = 200
          then (case body of
                  None \<Rightarrow> generate_except srv (JSONDecodeError (decode_error_is_request_exception srv))
                | Some (JDict d) \<Rightarrow>
                    (case dict_get_or d ''response'' (JStr []) of
                       JStr s \<Rightarrow> Inr (strip s)
                     | _ \<Rightarrow> generate_except srv AttributeError)
                | Some _ \<Rightarrow> generate_except srv AttributeError)
          else Inr (''Error: HTTP '' @ str_int status @ '' - '' @ text))"

text \<open>\<^verbatim>\<open>run_llama\<close>.\<close>

definition run_llama :: "ollama \<Rightarrow> string \<Rightarrow> string \<Rightarrow> int \<Rightarrow> rat \<Rightarrow> exn + string" where
  "run_llama srv prompt model max_tokens temperature =
     (case is_available (tags_first srv) of
        Inl e \<Rightarrow> Inl e
      | Inr available \<Rightarrow>
          if \<not> available
          then Inr ''Error: Ollama server is not running. Please start Ollama first.''
          else (case check_model_available srv (tags_second srv) model of
                  Inl e \<Rightarrow> Inl e
                | Inr found \<Rightarrow>
                    if \<not> found
                    then (case get_available_models srv (tags_third srv) of
                            Inl e \<Rightarrow> Inl e
                          | Inr available_models \<Rightarrow>
                              Inr (''Error: Model '' @ [CHR 0x27] @ model @ [CHR 0x27] @
                                   '' not found. Available models: '' @
                                   repr_list srv available_models))
                    else generate srv prompt model max_tokens temperature))"

section \<open>Notions used in the statements\<close>

text \<open>The last \<open>n\<close> elements of a list, oldest first.\<close>

definition last_n :: "nat \<Rightarrow> 'a list \<Rightarrow> 'a list" where
  "last_n n xs = drop (length xs - n) xs"

text \<open>A sequence of exchanges, appended one after the other, and the turns it consists of.\<close>

fun add_exchanges ::
  "('v, 's) world \<Rightarrow> hr_assistant \<Rightarrow> (string \<times> string \<times> 's cvres) list \<Rightarrow>
     hr_assistant \<times> ('v, 's) world" where
  "add_exchanges w a [] = (a, w)"
| "add_exchanges w a ((u, r, c) # xs) =
     (case add_to_history w a u r c of (a', w') \<Rightarrow> add_exchanges w' a' xs)"

definition turns_of :: "(string \<times> string \<times> 's cvres) list \<Rightarrow> turn list" where
  "turns_of xs =
     concat (map (\<lambda>(u, r, c). [\<lparr>role = ''user'', content = u\<rparr>,
                               \<lparr>role = ''assistant'', content = r\<rparr>]) xs)"



text \<open>
  The row \<^verbatim>\<open>process_query\<close> saves for an exchange with response \<open>r\<close>: the intent, and
  for a search the ranked results.
\<close>

definition recorded ::
  "('v, 's::linorder) world \<Rightarrow> hr_assistant \<Rightarrow> string \<Rightarrow> string \<Rightarrow> 's chat_row" where
  "recorded w a q r =
     \<lparr>chat_user_id = user_id a, chat_query = q,
      query_type = (if is_cv_search_query q then ''cv_search'' else ''general_chat''),
      response_text = r,
      cv_results = (if is_cv_search_query q
                    then (case extract_cv_count q of
                            Inl e \<Rightarrow> None
                          | Inr k \<Rightarrow> Some (fst (search_user_cvs w (user_id a) q k)))
                    else None)\<rparr>"

text \<open>A world without its list of calls: the tables and the collaborators.\<close>

definition without_calls :: "('v, 's) world \<Rightarrow> ('v, 's) world" where
  "without_calls w = w\<lparr>calls := []\<rparr>"

text \<open>
  Replies of the Ollama server, described by what they are. A request has failed when
  \<^verbatim>\<open>requests\<close> raised one of its exceptions (a timeout, a refused connection) or the
  status is not 200; a body is malformed when the status is 200 and the text is not JSON;
  the server is reachable when it answers the probe with status 200.
\<close>

definition request_failed :: "http_reply \<Rightarrow> bool" where
  "request_failed reply =
     (case reply of
        Raised e \<Rightarrow> is_request_exception e
      | Response status text body \<Rightarrow> status \<noteq> 200)"

definition malformed_body :: "http_reply \<Rightarrow> bool" where
  "malformed_body reply =
     (case reply of
        Raised e \<Rightarrow> False
      | Response status text body \<Rightarrow> status = 200 \<and> body = None)"

definition reachable :: "http_reply \<Rightarrow> bool" where
  "reachable reply =
     (case reply of
        Raised e \<Rightarrow> False
      | Response status text body \<Rightarrow> status = 200)"

text \<open>
  The model names a reply to \<^verbatim>\<open>GET /api/tags\<close> lists: the status is 200 and the body is a
  JSON object whose \<^verbatim>\<open>models\<close>, when present, is a list of objects that each have a
  string under \<^verbatim>\<open>name\<close>.
\<close>

fun listed_name :: "json \<Rightarrow> string option" where
  "listed_name (JDict m) = (case map_of m ''name'' of Some (JStr n) \<Rightarrow> Some n | _ \<Rightarrow> None)"
| "listed_name _ = None"

fun listed_names :: "json list \<Rightarrow> string list option" where
  "listed_names [] = Some []"
| "listed_names (m # ms) =
     (case listed_name m of
        None \<Rightarrow> None
      | Some n \<Rightarrow> (case listed_names ms of None \<Rightarrow> None | Some ns \<Rightarrow> Some (n # ns)))"

definition listing :: "http_reply \<Rightarrow> string list option" where
  "listing reply =
     (case reply of
        Raised e \<Rightarrow> None
      | Response status text body \<Rightarrow>
          if status = 200
          then (case body of
                  Some (JDict d) \<Rightarrow>
                    (case map_of d ''models'' of
                       None \<Rightarrow> Some []
                     | Some (JList ms) \<Rightarrow> listed_names ms
                     | Some _ \<Rightarrow> None)
                | _ \<Rightarrow> None)
          else None)"

definition lists_model :: "http_reply \<Rightarrow> string \<Rightarrow> bool" where
  "lists_model reply model =
     (case listing reply of None \<Rightarrow> False | Some ns \<Rightarrow> list_ex (\<lambda>n. str_in model n) ns)"

text \<open>
  A listing request ends in one of the ways named in the failure modes: it has failed, or
  its body is malformed (and the decode error of \<^verbatim>\<open>requests\<close> is a
  \<^verbatim>\<open>RequestException\<close>), or it lists model names.
\<close>

definition listing_answered :: "ollama \<Rightarrow> http_reply \<Rightarrow> bool" where
  "listing_answered srv reply =
     (request_failed reply
      \<or> (malformed_body reply \<and> decode_error_is_request_exception srv)
      \<or> listing reply \<noteq> None)"

text \<open>
  The failure modes of \<^verbatim>\<open>run_llama\<close>, by the replies of the server: it is unreachable;
  or it is reachable and neither of the two listings that follow names the requested
  model (whether they fail, are malformed or list other models); or it is reachable and
  lists the model, and the generate request has failed or its body is malformed.
\<close>

definition failure_mode :: "ollama \<Rightarrow> string \<Rightarrow> string \<Rightarrow> int \<Rightarrow> rat \<Rightarrow> bool" where
  "failure_mode srv prompt model max_tokens temperature =
     (request_failed (tags_first srv)
      \<or> (reachable (tags_first srv)
         \<and> listing_answered srv (tags_second srv) \<and> \<not> lists_model (tags_second srv) model
         \<and> listing_answered srv (tags_third srv))
      \<or> (reachable (tags_first srv)
         \<and> lists_model (tags_second srv) model
         \<and> (request_failed (post_generate srv prompt model max_tokens temperature)
            \<or> malformed_body (post_generate srv prompt model max_tokens temperature))))"

section \<open>Example inputs\<close>

text \<open>
  A store with two profiles of owner 1 and one of owner 2, two-dimensional integer
  vectors, and the dot product as similarity.
\<close>

definition demo_cvs :: "cv_row list" where
  "demo_cvs =
     [\<lparr>cv_id = 1, cv_user_id = 1, filename = ''ann.pdf'', candidate_name = Some ''Ann'',
       summary_json = JsonText (JDict [(''Name'', JStr ''Ann''), (''Skills'', JList [JStr ''Python''])])\<rparr>,
      \<lparr>cv_id = 2, cv_user_id = 1, filename = ''bob.pdf'', candidate_name = Some ''Bob'',
       summary_json = JsonText (JDict [(''Name'', JStr ''Bob'')])\<rparr>,
      \<lparr>cv_id = 3, cv_user_id = 2, filename = ''eve.pdf'', candidate_name = Some ''Eve'',
       summary_json = JsonText (JDict [(''Name'', JStr ''Eve'')])\<rparr>]"

definition demo_embeddings :: "int list embedding_row list" where
  "demo_embeddings =
     [\<lparr>emb_cv_id = 1, emb_user_id = 1, embedding_data = [1, 0], embedding_text = ''Name: Ann'',
       created_at = 10\<rparr>,
      \<lparr>emb_cv_id = 2, emb_user_id = 1, embedding_data = [2, 1], embedding_text = ''Name: Bob'',
       created_at = 20\<rparr>,
      \<lparr>emb_cv_id = 3, emb_user_id = 2, embedding_data = [5, 5], embedding_text = ''Name: Eve'',
       created_at = 30\<rparr>]"

definition dot :: "int list \<Rightarrow> int list \<Rightarrow> exn + int" where
  "dot x y = (if length x \<noteq> length y then Inl ValueError else Inr (sum_list (map2 (*) x y)))"

definition demo_world ::
  "int list embedding_row list \<Rightarrow> (string \<Rightarrow> int \<Rightarrow> rat \<Rightarrow> exn + string) \<Rightarrow> (int list, int) world" where
  "demo_world embs gen =
     \<lparr>cvs = demo_cvs, cv_embeddings = embs, chats = [], db_up = True,
      get_embedding = (\<lambda>q. Inr [1, 1]), cosine_similarity = dot, generator = gen,
      str_of = (\<lambda>v. ''?''), calls = []\<rparr>"

definition demo_exchanges :: "(string \<times> string \<times> int cvres) list" where
  "demo_exchanges =
     [(''q1'', ''r1'', CvNone), (''q2'', ''r2'', CvNone), (''q3'', ''r3'', CvNone),
      (''q4'', ''r4'', CvNone), (''q5'', ''r5'', CvNone), (''q6'', ''r6'', CvNone),
      (''q7'', ''r7'', CvNone), (''q8'', ''r8'', CvNone), (''q9'', ''r9'', CvNone),
      (''q10'', ''r10'', CvNone), (''q11'', ''r11'', CvNone)]"

text \<open>The same store after owner 2's vector was replaced and a vector of owner 3 added.\<close>

definition other_embeddings :: "int list embedding_row list" where
  "other_embeddings =
     [\<lparr>emb_cv_id = 4, emb_user_id = 3, embedding_data = [9, 9], embedding_text = ''Name: Zed'',
       created_at = 40\<rparr>,
      \<lparr>emb_cv_id = 1, emb_user_id = 1, embedding_data = [1, 0], embedding_text = ''Name: Ann'',
       created_at = 10\<rparr>,
      \<lparr>emb_cv_id = 2, emb_user_id = 1, embedding_data = [2, 1], embedding_text = ''Name: Bob'',
       created_at = 20\<rparr>,
      \<lparr>emb_cv_id = 3, emb_user_id = 2, embedding_data = [7, 0], embedding_text = ''Name: Eve B'',
       created_at = 50\<rparr>]"

definition bob_result :: "int result" where
  "bob_result =
     \<lparr>r_cv_id = 2, r_filename = ''bob.pdf'', r_candidate_name = Some ''Bob'', similarity = 3,
      r_embedding_text = ''Name: Bob''\<rparr>"

definition ann_result :: "int result" where
  "ann_result =
     \<lparr>r_cv_id = 1, r_filename = ''ann.pdf'', r_candidate_name = Some ''Ann'', similarity = 1,
      r_embedding_text = ''Name: Ann''\<rparr>"

text \<open>A store in which a summary lists a number among the skills.\<close>

definition odd_cvs :: "cv_row list" where
  "odd_cvs =
     [\<lparr>cv_id = 1, cv_user_id = 1, filename = ''ann.pdf'', candidate_name = Some ''Ann'',
       summary_json = JsonText (JDict [(''Name'', JStr ''Ann''),
                                       (''Skills'', JList [JStr ''Python'', JInt 3])])\<rparr>]"

text \<open>
  An Ollama server given by its replies to the probe, the two listings and the generate
  request, and a reply that lists one model.
\<close>

definition tags_ok :: http_reply where
  "tags_ok = Response 200 ''{...}''
     (Some (JDict [(''models'', JList [JDict [(''name'', JStr ''llama3.2:3b'')]])]))"

definition demo_server ::
  "bool \<Rightarrow> http_reply \<Rightarrow> http_reply \<Rightarrow> http_reply \<Rightarrow> http_reply \<Rightarrow> ollama" where
  "demo_server modern probe first_listing second_listing post =
     \<lparr>tags_first = probe, tags_second = first_listing, tags_third = second_listing,
      post_generate = (\<lambda>p m n t. post), decode_error_is_request_exception = modern,
      str_exn = (\<lambda>e. ''failed''), repr_list = (\<lambda>ms. ''[...]'')\<rparr>"

section \<open>Unfolding the model on concrete inputs\<close>

lemmas string_defs = strip_def is_space_def lower_def lower_char_def is_upper_def is_digit_def
  is_word_def any_in_def boundary_after_def py_int_def decimal_value_def int_max_str_digits_def
  digit_val_def str_int_def digit_char_def newline_def

lemmas intent_defs = is_cv_search_query_def search_keywords_def needs_context_def
  context_indicators_def extract_cv_count_def

lemmas store_defs = demo_world_def demo_embeddings_def demo_cvs_def dot_def
  called_def get_user_embeddings_def get_cv_by_id_def get_cv_full_summary_def sort_desc_def
  joined_def slice_to_def slice_from_def search_user_cvs_def

lemmas prompt_defs = format_cv_summary_def dict_get_def dict_get_or_def section_line_def
  skills_line_def join_json_def py_str_def edu_entry_def exp_entry_def load_cv_summary_def
  build_search_prompt_def build_history_context_def build_chat_prompt_def

lemmas orchestrator_defs = process_query_def handle_cv_search_def handle_chat_def unpack2_def
  add_to_history_def new_assistant_def no_match_msg_def search_fallback_msg_def
  search_error_msg_def chat_fallback_msg_def chat_error_msg_def empty_query_msg_def
  simple_responses_def

lemmas llama_defs = run_llama_def is_available_def check_model_available_def
  get_available_models_def model_names_def generate_def generate_except_def
  is_request_exception_def dict_get_or_def

section \<open>Facts about strings\<close>

lemma strip_blank:
  assumes "list_all is_space q"
  shows "strip q = []"
proof -
  have d: "dropWhile is_space q = []"
    using assms by (simp add: list_all_iff)
  show ?thesis
    by (simp only: strip_def d rev.simps dropWhile.simps)
qed

lemma strip_eq_Nil_iff: "strip s = [] \<longleftrightarrow> list_all is_space s"
proof
  assume "list_all is_space s"
  then show "strip s = []"
    by (rule strip_blank)
next
  assume "strip s = []"
  then have "\<forall>x \<in> set (dropWhile is_space s). is_space x"
    by (simp add: strip_def)
  then have "dropWhile is_space s = []"
    by (metis hd_dropWhile hd_in_set)
  then show "list_all is_space s"
    by (simp add: list_all_iff)
qed

lemma str_in_sublist: "str_in sub s \<longleftrightarrow> sublist sub s"
  by (induction s) (auto simp: sublist_Cons_right)

lemma str_in_appendI: "str_in q (p @ q @ r)"
  by (simp add: str_in_sublist)

section \<open>Context manager: the history is bounded and evicts oldest first\<close>

lemma add_to_history_fst:
  "fst (add_to_history w a u r c) =
     a\<lparr>conversation_history :=
         (let h = conversation_history a @
                    [\<lparr>role = ''user'', content = u\<rparr>, \<lparr>role = ''assistant'', content = r\<rparr>]
          in if int (length h) > max_history_length a * 2
             then slice_from (- (max_history_length a * 2)) h else h)\<rparr>"
  by (simp add: add_to_history_def Let_def split: cvres.splits)

lemma add_to_history_history:
  assumes "0 < max_history_length a"
  shows "conversation_history (fst (add_to_history w a u r c)) =
           last_n (nat (2 * max_history_length a))
             (conversation_history a @
                [\<lparr>role = ''user'', content = u\<rparr>, \<lparr>role = ''assistant'', content = r\<rparr>])"
  using assms
  by (auto simp: add_to_history_fst Let_def slice_from_def last_n_def nat_diff_distrib
        nat_add_distrib intro!: arg_cong2[where f=drop])

lemma add_to_history_max:
  "max_history_length (fst (add_to_history w a u r c)) = max_history_length a"
  by (simp add: add_to_history_fst)

lemma last_n_last_n_append: "last_n n (last_n n xs @ ys) = last_n n (xs @ ys)"
  by (cases "n \<le> length xs") (auto simp: last_n_def add.commute)

lemma length_last_n: "length (last_n n xs) = min n (length xs)"
  by (simp add: last_n_def)

lemma length_turns_of: "length (turns_of xs) = 2 * length xs"
  by (induction xs) (auto simp: turns_of_def)

lemma add_exchanges_fifo:
  assumes "0 < max_history_length a" "xs \<noteq> []"
  shows "conversation_history (fst (add_exchanges w a xs)) =
           last_n (nat (2 * max_history_length a)) (conversation_history a @ turns_of xs)"
  using assms
proof (induction xs arbitrary: w a)
  case Nil
  then show ?case by simp
next
  case (Cons x xs)
  obtain u r c where x: "x = (u, r, c)"
    by (cases x) auto
  obtain a' w' where s: "add_to_history w a u r c = (a', w')"
    by (cases "add_to_history w a u r c") auto
  have m: "max_history_length a' = max_history_length a"
    using add_to_history_max[of w a u r c] s by simp
  have h: "conversation_history a' =
             last_n (nat (2 * max_history_length a)) (conversation_history a @ turns_of [x])"
    using add_to_history_history[OF Cons.prems(1), of w u r c] s x by (simp add: turns_of_def)
  show ?case
  proof (cases "xs = []")
    case True
    then show ?thesis using h x s by simp
  next
    case False
    have "conversation_history (fst (add_exchanges w' a' xs)) =
            last_n (nat (2 * max_history_length a')) (conversation_history a' @ turns_of xs)"
      using Cons.IH[of a' w'] Cons.prems(1) m False by simp
    then show ?thesis
      using x s m h by (simp add: last_n_last_n_append turns_of_def)
  qed
qed

text \<open>
  Claim C4. Let \<open>N = max_history_length\<close> be positive (the constructor sets it to 10).
  After any non-empty sequence of appends, from any history, the history has at most
  \<open>2 * N\<close> turns, and it is exactly the last \<open>2 * N\<close> turns of the old history followed by
  the appended ones: the oldest turns are the ones dropped. In particular 11 exchanges
  appended to a new assistant leave 20 turns, those of exchanges 2 to 11.
\<close>

theorem history_bounded_fifo:
  assumes "0 < max_history_length a" and "xs \<noteq> []"
  shows "int (length (conversation_history (fst (add_exchanges w a xs)))) \<le> 2 * max_history_length a
       \<and> conversation_history (fst (add_exchanges w a xs)) =
           last_n (nat (2 * max_history_length a)) (conversation_history a @ turns_of xs)
       \<and> (a = new_assistant uid \<and> length xs = 11 \<longrightarrow>
            conversation_history (fst (add_exchanges w a xs)) = turns_of (tl xs)
          \<and> length (conversation_history (fst (add_exchanges w a xs))) = 20)"
proof -
  let ?h = "conversation_history (fst (add_exchanges w a xs))"
  have fifo: "?h = last_n (nat (2 * max_history_length a)) (conversation_history a @ turns_of xs)"
    by (rule add_exchanges_fifo[OF assms])
  have bound: "int (length ?h) \<le> 2 * max_history_length a"
    using assms(1) by (simp add: fifo length_last_n)
  have scenario: "?h = turns_of (tl xs) \<and> length ?h = 20"
    if a: "a = new_assistant uid" and n: "length xs = 11"
  proof -
    obtain x xs' where xs: "xs = x # xs'"
      using assms(2) by (cases xs) auto
    obtain u r c where x: "x = (u, r, c)"
      by (cases x) auto
    have "?h = last_n 20 (turns_of xs)"
      using fifo a by (simp add: new_assistant_def)
    also have "\<dots> = drop 2 (turns_of xs)"
      using n by (simp add: last_n_def length_turns_of)
    also have "\<dots> = turns_of (tl xs)"
      using xs x by (simp add: turns_of_def)
    finally have "?h = turns_of (tl xs)" .
    then show ?thesis
      using n xs by (simp add: length_turns_of)
  qed
  show ?thesis
    using fifo bound scenario by blast
qed

theorem history_bounded_fifo_witness:
  "conversation_history
     (fst (add_exchanges (demo_world demo_embeddings (\<lambda>p n t. Inr ''ok'')) (new_assistant 1)
        demo_exchanges)) = turns_of (tl demo_exchanges)
   \<and> length (conversation_history
        (fst (add_exchanges (demo_world demo_embeddings (\<lambda>p n t. Inr ''ok'')) (new_assistant 1)
           demo_exchanges))) = 20"
proof -
  have pos: "0 < max_history_length (new_assistant 1)"
    by (simp add: new_assistant_def)
  have ne: "demo_exchanges \<noteq> []"
    by (simp add: demo_exchanges_def)
  have len: "length demo_exchanges = 11"
    by (simp add: demo_exchanges_def)
  show ?thesis
    using history_bounded_fifo[OF pos ne, of "demo_world demo_embeddings (\<lambda>p n t. Inr ''ok'')" 1] len
    by blast
qed

section \<open>Orchestrator: an empty query is answered at once\<close>

text \<open>
  Claim C10. For a query that is empty or consists of white space only,
  \<^verbatim>\<open>process_query\<close> returns the fixed string "Please ask me something!" and leaves the
  assistant and the world as they were: no call to the embedding provider, the store or
  the generator is made, and neither the history nor the chat log grows.
\<close>

theorem process_query_blank:
  assumes "list_all is_space q"
  shows "process_query w a q = (Inr ''Please ask me something!'', a, w)"
  using strip_blank[OF assms] by (simp add: process_query_def empty_query_msg_def)

theorem process_query_blank_witness:
  "process_query (demo_world demo_embeddings (\<lambda>p n t. Inr ''ok'')) (new_assistant 1)
     [CHR '' '', CHR 0x09, CHR '' '', CHR 0x0A]
   = (Inr ''Please ask me something!'', new_assistant 1,
      demo_world demo_embeddings (\<lambda>p n t. Inr ''ok''))"
  using process_query_blank[of "[CHR '' '', CHR 0x09, CHR '' '', CHR 0x0A]"
          "demo_world demo_embeddings (\<lambda>p n t. Inr ''ok'')" "new_assistant 1"]
  by (simp add: is_space_def)

section \<open>Intent classifier: an explicit integer decides the result count\<close>

lemma of_char_lower_char:
  "of_char (lower_char c) = (if is_upper c then of_char c + 32 else (of_char c :: nat))"
  by (cases c) (auto simp: lower_char_def is_upper_def Let_def)

lemma is_digit_lower_char [simp]: "is_digit (lower_char c) = is_digit c"
  by (auto simp: is_digit_def of_char_lower_char is_upper_def Let_def)

lemma is_word_lower_char [simp]: "is_word (lower_char c) = is_word c"
  by (auto simp: is_word_def of_char_lower_char is_upper_def Let_def)
















section \<open>Similarity ranker: the ranked list\<close>


lemma set_slice_to: "set (slice_to k xs) \<subseteq> set xs"
  by (auto simp: slice_to_def dest: in_set_takeD)

lemma mset_insert_desc: "mset (insert_desc key x ys) = add_mset x (mset ys)"
  by (induction ys) auto


lemma mset_sort_desc: "mset (sort_desc key xs) = mset xs"
  by (induction xs) (auto simp: sort_desc_def mset_insert_desc)

lemma set_sort_desc: "set (sort_desc key xs) = set xs"
  using mset_sort_desc[of key xs] by (metis set_mset_mset)








lemma search_user_cvs_cases:
  "fst (search_user_cvs w uid query top_k) = [] \<or>
   (\<exists>qe cands scored. get_embedding w query = Inr qe \<and> get_user_embeddings w uid = Inr cands \<and>
      score_all (cosine_similarity w) qe cands = Inr scored \<and>
      fst (search_user_cvs w uid query top_k) = slice_to top_k (sort_desc similarity scored))"
  by (auto simp: search_user_cvs_def Let_def split: sum.splits)






section \<open>Owner isolation\<close>

lemma score_all_set:
  "score_all sim q cands = Inr rs \<Longrightarrow> r \<in> set rs \<Longrightarrow>
     \<exists>c \<in> set cands. r_cv_id r = ed_cv_id c \<and> r_embedding_text r = ed_embedding_text c"
  by (induction cands arbitrary: rs) (auto split: sum.splits)

lemma get_user_embeddings_set:
  "get_user_embeddings w uid = Inr cands \<Longrightarrow> c \<in> set cands \<Longrightarrow>
     \<exists>e \<in> set (cv_embeddings w). emb_user_id e = uid \<and> emb_cv_id e = ed_cv_id c
        \<and> embedding_text e = ed_embedding_text c"
  by (fastforce simp: get_user_embeddings_def set_sort_desc joined_def split: if_splits)

lemma search_user_cvs_own:
  assumes "r \<in> set (fst (search_user_cvs w uid query top_k))"
  shows "\<exists>e \<in> set (cv_embeddings w). emb_user_id e = uid \<and> emb_cv_id e = r_cv_id r
           \<and> embedding_text e = r_embedding_text r"
proof -
  from search_user_cvs_cases[of w uid query top_k] assms
  obtain qe cands scored where h: "get_user_embeddings w uid = Inr cands"
      "score_all (cosine_similarity w) qe cands = Inr scored"
      "fst (search_user_cvs w uid query top_k) = slice_to top_k (sort_desc similarity scored)"
    by auto
  have "r \<in> set scored"
    using assms h(3) set_slice_to[of top_k "sort_desc similarity scored"] by (auto simp: set_sort_desc)
  then obtain c where c: "c \<in> set cands" "r_cv_id r = ed_cv_id c" "r_embedding_text r = ed_embedding_text c"
    using score_all_set[OF h(2)] by blast
  then show ?thesis
    using get_user_embeddings_set[OF h(1) c(1)] by auto
qed

lemma get_cv_full_summary_own:
  "get_cv_full_summary w cid uid = Some j \<Longrightarrow>
     \<exists>c \<in> set (cvs w). cv_id c = cid \<and> cv_user_id c = uid \<and> summary_json c = JsonText j"
  by (auto simp: get_cv_full_summary_def get_cv_by_id_def find_Some_iff
      split: sum.splits option.splits if_splits summary_col.splits)

text \<open>
  Claim C7. Take two worlds with the same CV table and collaborators whose embedding
  tables hold the same rows of owner \<open>uid\<close>, in the same order; the rows of other owners
  may differ in any way (added, changed, removed). Then a search of \<open>uid\<close> returns the same
  list in both, and every summary \<open>uid\<close> can retrieve is the same in both. Every result
  comes from an embedding row of \<open>uid\<close>, and every summary from a CV row of \<open>uid\<close>.
\<close>

theorem owner_isolation:
  assumes "cvs w2 = cvs w1" and "db_up w2 = db_up w1" and "get_embedding w2 = get_embedding w1"
    and "cosine_similarity w2 = cosine_similarity w1"
    and "filter (\<lambda>e. emb_user_id e = uid) (cv_embeddings w2)
           = filter (\<lambda>e. emb_user_id e = uid) (cv_embeddings w1)"
  shows "fst (search_user_cvs w2 uid query top_k) = fst (search_user_cvs w1 uid query top_k)
       \<and> get_cv_full_summary w2 cid uid = get_cv_full_summary w1 cid uid
       \<and> (\<forall>r \<in> set (fst (search_user_cvs w1 uid query top_k)).
            \<exists>e \<in> set (cv_embeddings w1). emb_user_id e = uid \<and> emb_cv_id e = r_cv_id r
               \<and> embedding_text e = r_embedding_text r)
       \<and> (\<forall>j. get_cv_full_summary w1 cid uid = Some j \<longrightarrow>
            (\<exists>c \<in> set (cvs w1). cv_id c = cid \<and> cv_user_id c = uid \<and> summary_json c = JsonText j))"
proof -
  have e: "get_user_embeddings w2 uid = get_user_embeddings w1 uid"
    using assms by (simp add: get_user_embeddings_def)
  have s: "fst (search_user_cvs w2 uid query top_k) = fst (search_user_cvs w1 uid query top_k)"
    using assms(3,4) e by (auto simp: search_user_cvs_def Let_def split: sum.splits)
  have g: "get_cv_full_summary w2 cid uid = get_cv_full_summary w1 cid uid"
    using assms(1,2) by (simp add: get_cv_full_summary_def get_cv_by_id_def)
  show ?thesis
    using s g search_user_cvs_own[of _ w1 uid query top_k] get_cv_full_summary_own[of w1 cid uid]
    by blast
qed

theorem owner_isolation_witness:
  "fst (search_user_cvs (demo_world other_embeddings (\<lambda>p n t. Inr ''ok'')) 1 ''find python'' 4)
     = fst (search_user_cvs (demo_world demo_embeddings (\<lambda>p n t. Inr ''ok'')) 1 ''find python'' 4)
   \<and> get_cv_full_summary (demo_world other_embeddings (\<lambda>p n t. Inr ''ok'')) 2 1
     = get_cv_full_summary (demo_world demo_embeddings (\<lambda>p n t. Inr ''ok'')) 2 1"
proof -
  let ?w1 = "demo_world demo_embeddings (\<lambda>p n t. Inr ''ok'')"
  let ?w2 = "demo_world other_embeddings (\<lambda>p n t. Inr ''ok'')"
  have 1: "cvs ?w2 = cvs ?w1" and 2: "db_up ?w2 = db_up ?w1"
    and 3: "get_embedding ?w2 = get_embedding ?w1"
    and 4: "cosine_similarity ?w2 = cosine_similarity ?w1"
    by (simp_all add: demo_world_def)
  have 5: "filter (\<lambda>e. emb_user_id e = 1) (cv_embeddings ?w2)
             = filter (\<lambda>e. emb_user_id e = 1) (cv_embeddings ?w1)"
    by (simp add: demo_world_def demo_embeddings_def other_embeddings_def)
  show ?thesis
    using owner_isolation[OF 1 2 3 4 5, of "''find python''" 4 2] by blast
qed

section \<open>Orchestrator: what a query changes and records\<close>

lemma without_calls_called [simp]: "without_calls (called c w) = without_calls w"
  by (simp add: without_calls_def called_def)

lemma without_calls_fields:
  assumes "without_calls w' = without_calls w"
  shows "cvs w' = cvs w" "cv_embeddings w' = cv_embeddings w" "chats w' = chats w"
    "db_up w' = db_up w" "get_embedding w' = get_embedding w"
    "cosine_similarity w' = cosine_similarity w" "generator w' = generator w" "str_of w' = str_of w"
proof -
  have "cvs (without_calls w') = cvs (without_calls w)" using assms by simp
  then show "cvs w' = cvs w" by (simp add: without_calls_def)
  have "cv_embeddings (without_calls w') = cv_embeddings (without_calls w)" using assms by simp
  then show "cv_embeddings w' = cv_embeddings w" by (simp add: without_calls_def)
  have "chats (without_calls w') = chats (without_calls w)" using assms by simp
  then show "chats w' = chats w" by (simp add: without_calls_def)
  have "db_up (without_calls w') = db_up (without_calls w)" using assms by simp
  then show "db_up w' = db_up w" by (simp add: without_calls_def)
  have "get_embedding (without_calls w') = get_embedding (without_calls w)" using assms by simp
  then show "get_embedding w' = get_embedding w" by (simp add: without_calls_def)
  have "cosine_similarity (without_calls w') = cosine_similarity (without_calls w)" using assms by simp
  then show "cosine_similarity w' = cosine_similarity w" by (simp add: without_calls_def)
  have "generator (without_calls w') = generator (without_calls w)" using assms by simp
  then show "generator w' = generator w" by (simp add: without_calls_def)
  have "str_of (without_calls w') = str_of (without_calls w)" using assms by simp
  then show "str_of w' = str_of w" by (simp add: without_calls_def)
qed

lemma search_user_cvs_frame:
  "without_calls (snd (search_user_cvs w uid q k)) = without_calls w"
  by (auto simp: search_user_cvs_def Let_def split: sum.splits)

lemma candidate_blocks_frame:
  "without_calls (snd (candidate_blocks w a i rs)) = without_calls w"
proof (induction rs arbitrary: w i)
  case Nil
  show ?case by simp
next
  case (Cons r rs)
  let ?w1 = "called (GetCvById (r_cv_id r) (user_id a)) w"
  obtain p w2 where c: "candidate_blocks ?w1 a (i + 1) rs = (p, w2)"
    by (cases "candidate_blocks ?w1 a (i + 1) rs") auto
  have 1: "without_calls w2 = without_calls w"
    using Cons.IH[of ?w1 "i + 1"] c by simp
  obtain p' w3 where c': "candidate_blocks w a (i + 1) rs = (p', w3)"
    by (cases "candidate_blocks w a (i + 1) rs") auto
  have 2: "without_calls w3 = without_calls w"
    using Cons.IH[of w "i + 1"] c' by simp
  show ?case
    using c c' 1 2
    by (auto simp: load_cv_summary_def split: option.splits sum.splits)
qed

lemma build_search_prompt_frame:
  "without_calls (snd (build_search_prompt w a q rs)) = without_calls w"
proof -
  obtain p w1 where c: "candidate_blocks w a 1 rs = (p, w1)"
    by (cases "candidate_blocks w a 1 rs") auto
  have "without_calls w1 = without_calls w"
    using candidate_blocks_frame[of w a 1 rs] c by simp
  then show ?thesis
    using c by (auto simp: build_search_prompt_def Let_def split: sum.splits)
qed

lemma handle_cv_search_frame:
  "without_calls (snd (handle_cv_search w a q)) = without_calls w"
proof (cases "extract_cv_count q")
  case (Inl e)
  then show ?thesis by (simp add: handle_cv_search_def)
next
  case (Inr k)
  obtain rs w1 where s: "search_user_cvs w (user_id a) q k = (rs, w1)"
    by (cases "search_user_cvs w (user_id a) q k") auto
  have w1: "without_calls w1 = without_calls w"
    using search_user_cvs_frame[of w "user_id a" q k] s by simp
  obtain p w2 where b: "build_search_prompt w1 a q rs = (p, w2)"
    by (cases "build_search_prompt w1 a q rs") auto
  have w2: "without_calls w2 = without_calls w"
    using build_search_prompt_frame[of w1 a q rs] b w1 by simp
  show ?thesis
    using Inr s b w1 w2
    by (auto simp: handle_cv_search_def Let_def split: sum.splits)
qed

lemma handle_chat_frame:
  "without_calls (snd (handle_chat w a q)) = without_calls w"
  by (auto simp: handle_chat_def Let_def split: option.splits sum.splits prod.splits)

lemma handle_cv_search_results:
  assumes "handle_cv_search w a q = (Inr (RTuple r rs), w')"
  shows "\<exists>k. extract_cv_count q = Inr k
             \<and> rs = fst (search_user_cvs w (user_id a) q k) \<and> rs \<noteq> []"
  using assms
  by (auto simp: handle_cv_search_def Let_def split: prod.splits sum.splits if_splits)

lemma unpack2_RStr: "length s \<noteq> 2 \<Longrightarrow> unpack2 (RStr s) = Inl ValueError"
  by (auto simp: unpack2_def split: list.splits)

lemma handle_cv_search_str:
  "handle_cv_search w a q = (Inr (RStr s), w') \<Longrightarrow> length s \<noteq> 2"
  by (auto simp: handle_cv_search_def Let_def no_match_msg_def search_error_msg_def
      search_fallback_msg_def split: prod.splits sum.splits if_splits)

lemma process_query_search_str:
  fixes w :: "('v, 's::linorder) world"
  assumes "strip q \<noteq> []" and "is_cv_search_query q"
    and "handle_cv_search w a q = (Inr (RStr s), w')"
  shows "process_query w a q = (Inl ValueError, a, w')"
proof -
  have "unpack2 (RStr s :: 's ret) = Inl ValueError"
    using handle_cv_search_str[OF assms(3)] by (rule unpack2_RStr)
  then show ?thesis
    using assms by (simp add: process_query_def)
qed

lemma add_to_history_chats:
  "snd (add_to_history w a u r c) = called (SaveChat (user_id a)) w \<and> \<not> db_up w
   \<or> snd (add_to_history w a u r c) = w \<and> is_cv_search_query u \<and> (\<exists>ch. c = CvChar ch)
   \<or> snd (add_to_history w a u r c) =
        (called (SaveChat (user_id a)) w)\<lparr>chats := chats w @
           [\<lparr>chat_user_id = user_id a, chat_query = u,
             query_type = (if is_cv_search_query u then ''cv_search'' else ''general_chat''),
             response_text = r,
             cv_results = (case c of CvList rs \<Rightarrow>
                              if is_cv_search_query u \<and> rs \<noteq> [] then Some rs else None
                           | _ \<Rightarrow> None)\<rparr>]\<rparr>"
  by (auto simp: add_to_history_def Let_def called_def split: cvres.splits)

lemma add_to_history_user_id: "user_id (fst (add_to_history w a u r c)) = user_id a"
  by (simp add: add_to_history_fst)

lemma process_query_chats:
  "without_calls (snd (snd (process_query w a q))) = without_calls w
   \<or> (\<exists>r. without_calls (snd (snd (process_query w a q)))
            = without_calls (w\<lparr>chats := chats w @ [recorded w a q r]\<rparr>))"
proof (cases "strip q = []")
  case True
  then show ?thesis by (simp add: process_query_def)
next
  case blank: False
  show ?thesis
  proof (cases "is_cv_search_query q")
    case True
    obtain out w1 where h: "handle_cv_search w a q = (out, w1)"
      by (cases "handle_cv_search w a q") auto
    have f: "without_calls w1 = without_calls w"
      using handle_cv_search_frame[of w a q] h by simp
    show ?thesis
    proof (cases out)
      case (Inl e)
      then show ?thesis using blank True h f by (simp add: process_query_def)
    next
      case (Inr v)
      show ?thesis
      proof (cases v)
        case (RStr s)
        then show ?thesis
          using process_query_search_str[OF blank True, of w a s w1] h Inr f by simp
      next
        case (RTuple r rs)
        obtain k where k: "extract_cv_count q = Inr k"
          and rs: "rs = fst (search_user_cvs w (user_id a) q k)" "rs \<noteq> []"
          using handle_cv_search_results[of w a q r rs w1] h Inr RTuple by auto
        obtain a' w2 where ad: "add_to_history w1 a q r (CvList rs) = (a', w2)"
          by (cases "add_to_history w1 a q r (CvList rs)") auto
        have pq: "process_query w a q = (Inr r, a', w2)"
          using blank True h Inr RTuple ad by (simp add: process_query_def unpack2_def)
        have c: "chats w1 = chats w"
          using without_calls_fields(3)[OF f] .
        have "without_calls w2 = without_calls w1
              \<or> without_calls w2 = without_calls (w1\<lparr>chats := chats w1 @ [recorded w a q r]\<rparr>)"
          using add_to_history_chats[of w1 a q r "CvList rs"] ad True rs k
          by (auto simp: recorded_def without_calls_def called_def)
        moreover have "without_calls (w1\<lparr>chats := x\<rparr>) = without_calls (w\<lparr>chats := x\<rparr>)" for x
          using f by (simp add: without_calls_def) (metis world.update_convs(3) world.surjective world.update_convs(9))
        ultimately show ?thesis
          using pq f c by auto
      qed
    qed
  next
    case False
    obtain r w1 where h: "handle_chat w a q = (r, w1)"
      by (cases "handle_chat w a q") auto
    have f: "without_calls w1 = without_calls w"
      using handle_chat_frame[of w a q] h by simp
    obtain a' w2 where ad: "add_to_history w1 a q r CvNone = (a', w2)"
      by (cases "add_to_history w1 a q r CvNone") auto
    have pq: "process_query w a q = (Inr r, a', w2)"
      using blank False h ad by (simp add: process_query_def)
    have c: "chats w1 = chats w"
      using without_calls_fields(3)[OF f] .
    have "without_calls w2 = without_calls w1
          \<or> without_calls w2 = without_calls (w1\<lparr>chats := chats w1 @ [recorded w a q r]\<rparr>)"
      using add_to_history_chats[of w1 a q r CvNone] ad False
      by (auto simp: recorded_def without_calls_def called_def)
    moreover have "without_calls (w1\<lparr>chats := x\<rparr>) = without_calls (w\<lparr>chats := x\<rparr>)" for x
      using f by (simp add: without_calls_def) (metis world.update_convs(3) world.surjective world.update_convs(9))
    ultimately show ?thesis
      using pq f c by auto
  qed
qed

lemma process_query_row:
  assumes "chats (snd (snd (process_query w a q))) = chats w @ [row]"
  shows "\<exists>r. row = recorded w a q r"
proof -
  from process_query_chats[of w a q] show ?thesis
  proof
    assume "without_calls (snd (snd (process_query w a q))) = without_calls w"
    from without_calls_fields(3)[OF this] assms show ?thesis by simp
  next
    assume "\<exists>r. without_calls (snd (snd (process_query w a q)))
              = without_calls (w\<lparr>chats := chats w @ [recorded w a q r]\<rparr>)"
    then obtain r where "without_calls (snd (snd (process_query w a q)))
              = without_calls (w\<lparr>chats := chats w @ [recorded w a q r]\<rparr>)" ..
    from without_calls_fields(3)[OF this] assms show ?thesis by auto
  qed
qed

lemma process_query_store:
  "cvs (snd (snd (process_query w a q))) = cvs w
   \<and> cv_embeddings (snd (snd (process_query w a q))) = cv_embeddings w
   \<and> db_up (snd (snd (process_query w a q))) = db_up w
   \<and> get_embedding (snd (snd (process_query w a q))) = get_embedding w
   \<and> cosine_similarity (snd (snd (process_query w a q))) = cosine_similarity w"
proof -
  from process_query_chats[of w a q] show ?thesis
  proof
    assume h: "without_calls (snd (snd (process_query w a q))) = without_calls w"
    show ?thesis
      using without_calls_fields(1,2,4,5,6)[OF h] by simp
  next
    assume "\<exists>r. without_calls (snd (snd (process_query w a q)))
              = without_calls (w\<lparr>chats := chats w @ [recorded w a q r]\<rparr>)"
    then obtain r where h: "without_calls (snd (snd (process_query w a q)))
              = without_calls (w\<lparr>chats := chats w @ [recorded w a q r]\<rparr>)" ..
    show ?thesis
      using without_calls_fields(1,2,4,5,6)[OF h] by simp
  qed
qed

lemma process_query_user_id: "user_id (fst (snd (process_query w a q))) = user_id a"
  by (auto simp: process_query_def add_to_history_def Let_def split: prod.splits sum.splits cvres.splits)

lemma search_user_cvs_store:
  assumes "cvs w2 = cvs w1" and "cv_embeddings w2 = cv_embeddings w1" and "db_up w2 = db_up w1"
    and "get_embedding w2 = get_embedding w1" and "cosine_similarity w2 = cosine_similarity w1"
  shows "fst (search_user_cvs w2 uid q k) = fst (search_user_cvs w1 uid q k)"
proof -
  have "get_user_embeddings w2 uid = get_user_embeddings w1 uid"
    using assms by (simp add: get_user_embeddings_def)
  then show ?thesis
    using assms(4,5) by (auto simp: search_user_cvs_def Let_def split: sum.splits)
qed

text \<open>
  Claim C8. The intent and the result count are computed from the query text alone
  (\<open>is_cv_search_query\<close> and \<open>extract_cv_count\<close> read nothing else). Take two runs of
  \<^verbatim>\<open>process_query\<close> for the same owner and text on the same profile store; the history,
  the chat log and the generator may differ. Then both runs rank the same results in the
  same order, whatever the result count, and when both record their exchange the two
  records carry the same intent and the same ranked results. A run leaves the profile store and the owner as they were,
  so a second run after it is such a run.
\<close>

theorem process_query_idempotent:
  assumes "cvs w2 = cvs w1" and "cv_embeddings w2 = cv_embeddings w1" and "db_up w2 = db_up w1"
    and "get_embedding w2 = get_embedding w1" and "cosine_similarity w2 = cosine_similarity w1"
    and "user_id a2 = user_id a1"
  shows "(\<forall>k. fst (search_user_cvs w2 (user_id a2) q k)
                = fst (search_user_cvs w1 (user_id a1) q k))
       \<and> (\<forall>row1 row2.
             chats (snd (snd (process_query w1 a1 q))) = chats w1 @ [row1] \<and>
             chats (snd (snd (process_query w2 a2 q))) = chats w2 @ [row2] \<longrightarrow>
               query_type row1 = query_type row2 \<and> cv_results row1 = cv_results row2)
       \<and> cvs (snd (snd (process_query w1 a1 q))) = cvs w1
       \<and> cv_embeddings (snd (snd (process_query w1 a1 q))) = cv_embeddings w1
       \<and> db_up (snd (snd (process_query w1 a1 q))) = db_up w1
       \<and> get_embedding (snd (snd (process_query w1 a1 q))) = get_embedding w1
       \<and> cosine_similarity (snd (snd (process_query w1 a1 q))) = cosine_similarity w1
       \<and> user_id (fst (snd (process_query w1 a1 q))) = user_id a1"
proof -
  have s: "fst (search_user_cvs w2 (user_id a2) q k)
           = fst (search_user_cvs w1 (user_id a1) q k)" for k
    using search_user_cvs_store[OF assms(1-5)] assms(6) by simp
  have rows: "query_type row1 = query_type row2 \<and> cv_results row1 = cv_results row2"
    if "chats (snd (snd (process_query w1 a1 q))) = chats w1 @ [row1]"
      and "chats (snd (snd (process_query w2 a2 q))) = chats w2 @ [row2]" for row1 row2
    using process_query_row[OF that(1)] process_query_row[OF that(2)] s
    by (auto simp: recorded_def split: sum.splits)
  show ?thesis
    using s rows process_query_store[of w1 a1 q] process_query_user_id[of w1 a1 q] by blast
qed

theorem process_query_idempotent_witness:
  "extract_cv_count ''find python'' = Inr 4
   \<and> fst (search_user_cvs (demo_world demo_embeddings (\<lambda>p n t. Inr ''Ann also fits.'')) 1
          ''find python'' 4)
     = [bob_result, ann_result]
   \<and> cv_results (last (chats (snd (snd (process_query
          (demo_world demo_embeddings (\<lambda>p n t. Inr ''Ann also fits.'')) (new_assistant 1)
          ''find python''))))) = Some [bob_result, ann_result]"
proof -
  let ?w1 = "demo_world demo_embeddings (\<lambda>p n t. Inr ''Bob fits.'')"
  let ?w2 = "demo_world demo_embeddings (\<lambda>p n t. Inr ''Ann also fits.'')"
  let ?a = "new_assistant 1"
  let ?row = "\<lambda>r. \<lparr>chat_user_id = 1, chat_query = ''find python'', query_type = ''cv_search'',
                     response_text = r, cv_results = Some [bob_result, ann_result]\<rparr>"
  have 1: "cvs ?w2 = cvs ?w1" and 2: "cv_embeddings ?w2 = cv_embeddings ?w1"
    and 3: "db_up ?w2 = db_up ?w1" and 4: "get_embedding ?w2 = get_embedding ?w1"
    and 5: "cosine_similarity ?w2 = cosine_similarity ?w1"
    by (simp_all add: demo_world_def)
  have 6: "user_id ?a = user_id ?a"
    by simp
  have k: "extract_cv_count ''find python'' = Inr 4"
    by (simp add: string_defs intent_defs)
  have r1: "fst (search_user_cvs ?w1 (user_id ?a) ''find python'' 4) = [bob_result, ann_result]"
    by (simp add: store_defs new_assistant_def bob_result_def ann_result_def)
  have c1: "chats (snd (snd (process_query ?w1 ?a ''find python''))) = chats ?w1 @ [?row ''Bob fits.'']"
    by (simp add: string_defs intent_defs store_defs prompt_defs orchestrator_defs Let_def
          bob_result_def ann_result_def)
  have c2: "chats (snd (snd (process_query ?w2 ?a ''find python'')))
              = chats ?w2 @ [last (chats (snd (snd (process_query ?w2 ?a ''find python''))))]"
    by (simp add: string_defs intent_defs store_defs prompt_defs orchestrator_defs Let_def)
  have "cv_results (?row ''Bob fits.'')
          = cv_results (last (chats (snd (snd (process_query ?w2 ?a ''find python'')))))"
    using process_query_idempotent[OF 1 2 3 4 5 6, of "''find python''"] c1 c2 by blast
  moreover have "fst (search_user_cvs ?w2 (user_id ?a) ''find python'' 4)
          = [bob_result, ann_result]"
    using process_query_idempotent[OF 1 2 3 4 5 6, of "''find python''"] r1 by simp
  ultimately show ?thesis
    using k by (simp add: new_assistant_def)
qed

section \<open>Response generator client: failures come back as text\<close>

lemma error_text_not_blank:
  assumes "prefix ''Error:'' s"
  shows "strip s \<noteq> []"
proof -
  obtain t where "s = ''Error:'' @ t" using assms by (auto simp: prefix_def)
  then have "\<not> list_all is_space s" by (simp add: is_space_def)
  then show ?thesis by (simp add: strip_eq_Nil_iff)
qed

text \<open>The probe.\<close>

lemma is_available_failed: "request_failed reply \<Longrightarrow> is_available reply = Inr False"
  by (auto simp: request_failed_def is_available_def split: http_reply.splits)

lemma is_available_reachable: "reachable reply \<Longrightarrow> is_available reply = Inr True"
  by (auto simp: reachable_def is_available_def split: http_reply.splits)

text \<open>
  The listing requests return in each of the three ways a listing is answered, and then
  the model is found exactly when a listed name contains it.
\<close>

lemma listed_name_model_name: "listed_name m = Some n \<Longrightarrow> model_name_of m = Inr (JStr n)"
  by (cases m) (auto split: option.splits json.splits)

lemma listed_names_model_names:
  "listed_names ms = Some ns \<Longrightarrow> model_names_of ms = Inr (map JStr ns)"
proof (induction ms arbitrary: ns)
  case Nil
  then show ?case by simp
next
  case (Cons m ms)
  from Cons.prems obtain n ns' where n: "listed_name m = Some n"
    and ns': "listed_names ms = Some ns'" and ns: "ns = n # ns'"
    by (auto split: option.splits)
  show ?case
    using listed_name_model_name[OF n] Cons.IH[OF ns'] ns by simp
qed

lemma get_available_models_listing:
  "listing reply = Some ns \<Longrightarrow> get_available_models srv reply = Inr (map JStr ns)"
  by (auto simp: listing_def get_available_models_def model_names_def dict_get_or_def
      listed_names_model_names split: http_reply.splits if_splits option.splits json.splits)

lemma get_available_models_failed:
  "request_failed reply \<Longrightarrow> get_available_models srv reply = Inr []"
  by (auto simp: request_failed_def get_available_models_def split: http_reply.splits)

lemma get_available_models_malformed:
  "malformed_body reply \<Longrightarrow> decode_error_is_request_exception srv \<Longrightarrow>
     get_available_models srv reply = Inr []"
  by (auto simp: malformed_body_def get_available_models_def split: http_reply.splits)

lemma listing_failed: "request_failed reply \<Longrightarrow> listing reply = None"
  by (auto simp: request_failed_def listing_def split: http_reply.splits)

lemma listing_malformed: "malformed_body reply \<Longrightarrow> listing reply = None"
  by (auto simp: malformed_body_def listing_def split: http_reply.splits)

lemma any_model_names: "any_model model (map JStr ns) = Inr (list_ex (\<lambda>n. str_in model n) ns)"
  by (induction ns) auto

lemma get_available_models_returns:
  assumes "listing_answered srv reply"
  shows "\<exists>ms. get_available_models srv reply = Inr ms"
proof -
  from assms consider "request_failed reply"
    | "malformed_body reply" "decode_error_is_request_exception srv"
    | ns where "listing reply = Some ns"
    by (auto simp: listing_answered_def)
  then show ?thesis
  proof cases
    case 1
    then show ?thesis by (simp add: get_available_models_failed)
  next
    case 2
    then show ?thesis by (simp add: get_available_models_malformed)
  next
    case 3
    then show ?thesis by (simp add: get_available_models_listing)
  qed
qed

lemma check_model_available_returns:
  assumes "listing_answered srv reply"
  shows "check_model_available srv reply model = Inr (lists_model reply model)"
proof -
  from assms consider "request_failed reply"
    | "malformed_body reply" "decode_error_is_request_exception srv"
    | ns where "listing reply = Some ns"
    by (auto simp: listing_answered_def)
  then show ?thesis
  proof cases
    case 1
    then show ?thesis
      by (simp add: check_model_available_def get_available_models_failed lists_model_def
          listing_failed)
  next
    case 2
    then show ?thesis
      by (simp add: check_model_available_def get_available_models_malformed lists_model_def
          listing_malformed)
  next
    case 3
    then show ?thesis
      by (simp add: check_model_available_def get_available_models_listing lists_model_def
          any_model_names)
  qed
qed

lemma lists_model_answered: "lists_model reply model \<Longrightarrow> listing_answered srv reply"
  by (auto simp: lists_model_def listing_answered_def split: option.splits)

text \<open>The generate request.\<close>

lemma generate_failed:
  assumes "request_failed (post_generate srv prompt model n t) \<or> malformed_body (post_generate srv prompt model n t)"
  shows "\<exists>s. generate srv prompt model n t = Inr s \<and> prefix ''Error:'' s"
  using assms
  by (auto simp: generate_def generate_except_def request_failed_def malformed_body_def
      is_request_exception_def split: http_reply.splits exn.splits)

text \<open>
  Claim C9. In each failure mode, described by the replies of the server (the probe
  fails: server unreachable; the server is reachable and its listings, whether they fail,
  are malformed or list other names, do not name the model: model missing; the model is
  listed and the generate request fails, times out, has a status other than 200 or a body
  that is not JSON) \<^verbatim>\<open>run_llama\<close> returns a string that begins with "Error:" and raises
  nothing. The string is not blank, so the orchestrator takes it for an ordinary response.
\<close>

theorem run_llama_failures_are_text:
  assumes "failure_mode srv prompt model max_tokens temperature"
  shows "\<exists>s. run_llama srv prompt model max_tokens temperature = Inr s
             \<and> prefix ''Error:'' s \<and> strip s \<noteq> []"
proof -
  from assms consider
      (unreachable) "request_failed (tags_first srv)"
    | (missing) "reachable (tags_first srv)" "listing_answered srv (tags_second srv)"
        "\<not> lists_model (tags_second srv) model" "listing_answered srv (tags_third srv)"
    | (generate) "reachable (tags_first srv)" "lists_model (tags_second srv) model"
        "request_failed (post_generate srv prompt model max_tokens temperature)
         \<or> malformed_body (post_generate srv prompt model max_tokens temperature)"
    unfolding failure_mode_def by blast
  then have "\<exists>s. run_llama srv prompt model max_tokens temperature = Inr s \<and> prefix ''Error:'' s"
  proof cases
    case unreachable
    then show ?thesis
      by (simp add: run_llama_def is_available_failed)
  next
    case missing
    obtain ms where "get_available_models srv (tags_third srv) = Inr ms"
      using get_available_models_returns[OF missing(4)] ..
    then show ?thesis
      using missing(3)
      by (simp add: run_llama_def is_available_reachable[OF missing(1)]
          check_model_available_returns[OF missing(2)])
  next
    case generate
    have "check_model_available srv (tags_second srv) model = Inr True"
      using check_model_available_returns[OF lists_model_answered[OF generate(2)]] generate(2)
      by simp
    then show ?thesis
      using generate_failed[OF generate(3)]
      by (simp add: run_llama_def is_available_reachable[OF generate(1)])
  qed
  then show ?thesis
    using error_text_not_blank by blast
qed

text \<open>
  One server for each mode: the probe is refused; the probe is answered, then the first
  listing times out and the second has status 503; the listing names another model; the
  listing is not JSON; the generate request times out, has status 502, has a body that is
  not JSON (for both class hierarchies of the decode error).
\<close>

theorem run_llama_failures_are_text_witness:
  "(\<exists>s. run_llama (demo_server True (Raised (RequestException ''refused'')) tags_ok tags_ok
                     (Raised Timeout))
          ''hello'' ''llama3.2:3b'' 600 (7 / 10) = Inr s \<and> prefix ''Error:'' s \<and> strip s \<noteq> [])
   \<and> (\<exists>s. run_llama (demo_server False tags_ok (Raised Timeout)
                     (Response 503 ''Service Unavailable'' None) tags_ok)
          ''hello'' ''llama3.2:3b'' 600 (7 / 10) = Inr s \<and> prefix ''Error:'' s \<and> strip s \<noteq> [])
   \<and> (\<exists>s. run_llama (demo_server False tags_ok tags_ok tags_ok (Raised Timeout))
          ''hello'' ''mistral'' 600 (7 / 10) = Inr s \<and> prefix ''Error:'' s \<and> strip s \<noteq> [])
   \<and> (\<exists>s. run_llama (demo_server True tags_ok (Response 200 ''<html>'' None) tags_ok tags_ok)
          ''hello'' ''llama3.2:3b'' 600 (7 / 10) = Inr s \<and> prefix ''Error:'' s \<and> strip s \<noteq> [])
   \<and> (\<exists>s. run_llama (demo_server False tags_ok tags_ok tags_ok (Raised Timeout))
          ''hello'' ''llama3.2:3b'' 600 (7 / 10) = Inr s \<and> prefix ''Error:'' s \<and> strip s \<noteq> [])
   \<and> (\<exists>s. run_llama (demo_server False tags_ok tags_ok tags_ok (Response 502 ''Bad Gateway'' None))
          ''hello'' ''llama3.2:3b'' 600 (7 / 10) = Inr s \<and> prefix ''Error:'' s \<and> strip s \<noteq> [])
   \<and> (\<exists>s. run_llama (demo_server False tags_ok tags_ok tags_ok (Response 200 ''<html>'' None))
          ''hello'' ''llama3.2:3b'' 600 (7 / 10) = Inr s \<and> prefix ''Error:'' s \<and> strip s \<noteq> [])
   \<and> (\<exists>s. run_llama (demo_server True tags_ok tags_ok tags_ok (Response 200 ''<html>'' None))
          ''hello'' ''llama3.2:3b'' 600 (7 / 10) = Inr s \<and> prefix ''Error:'' s \<and> strip s \<noteq> [])"
proof -
  note d = failure_mode_def demo_server_def tags_ok_def request_failed_def malformed_body_def
    reachable_def listing_answered_def lists_model_def listing_def is_request_exception_def
  have 1: "failure_mode (demo_server True (Raised (RequestException ''refused'')) tags_ok tags_ok
             (Raised Timeout)) ''hello'' ''llama3.2:3b'' 600 (7 / 10)"
    by (simp add: d)
  have 2: "failure_mode (demo_server False tags_ok (Raised Timeout)
             (Response 503 ''Service Unavailable'' None) tags_ok) ''hello'' ''llama3.2:3b'' 600 (7 / 10)"
    by (simp add: d)
  have 3: "failure_mode (demo_server False tags_ok tags_ok tags_ok (Raised Timeout))
             ''hello'' ''mistral'' 600 (7 / 10)"
    by (simp add: d)
  have 4: "failure_mode (demo_server True tags_ok (Response 200 ''<html>'' None) tags_ok tags_ok)
             ''hello'' ''llama3.2:3b'' 600 (7 / 10)"
    by (simp add: d)
  have 5: "failure_mode (demo_server False tags_ok tags_ok tags_ok (Raised Timeout))
             ''hello'' ''llama3.2:3b'' 600 (7 / 10)"
    by (simp add: d)
  have 6: "failure_mode (demo_server False tags_ok tags_ok tags_ok (Response 502 ''Bad Gateway'' None))
             ''hello'' ''llama3.2:3b'' 600 (7 / 10)"
    by (simp add: d)
  have 7: "failure_mode (demo_server False tags_ok tags_ok tags_ok (Response 200 ''<html>'' None))
             ''hello'' ''llama3.2:3b'' 600 (7 / 10)"
    by (simp add: d)
  have 8: "failure_mode (demo_server True tags_ok tags_ok tags_ok (Response 200 ''<html>'' None))
             ''hello'' ''llama3.2:3b'' 600 (7 / 10)"
    by (simp add: d)
  show ?thesis
    using run_llama_failures_are_text[OF 1] run_llama_failures_are_text[OF 2]
      run_llama_failures_are_text[OF 3] run_llama_failures_are_text[OF 4]
      run_llama_failures_are_text[OF 5] run_llama_failures_are_text[OF 6]
      run_llama_failures_are_text[OF 7] run_llama_failures_are_text[OF 8]
    by blast
qed

section \<open>Orchestrator: the bare strings of the search path\<close>

text \<open>
  On a chat query the generator's failure or blank output is replaced by a fixed message.
\<close>

lemma handle_chat_substitutes:
  assumes "find (\<lambda>(key, response). str_in key (strip (lower q))) simple_responses = None"
  shows "(generator w (build_chat_prompt a q) 150 (8 / 10) = Inl e \<longrightarrow>
            fst (handle_chat w a q) = chat_error_msg)
       \<and> (generator w (build_chat_prompt a q) 150 (8 / 10) = Inr s \<and> list_all is_space s \<longrightarrow>
            fst (handle_chat w a q) = chat_fallback_msg)"
  using assms by (auto simp: handle_chat_def Let_def strip_eq_Nil_iff)

text \<open>
  On the chat path the substitution works: when no canned phrase occurs in the query, an
  exception of the generator gives the fixed error message and a blank output the fixed
  fallback message.
\<close>

theorem chat_generator_failure_substituted:
  assumes "find (\<lambda>(key, response). str_in key (strip (lower q))) simple_responses = None"
  shows "(generator w (build_chat_prompt a q) 150 (8 / 10) = Inl e \<longrightarrow>
            fst (handle_chat w a q) = ''I'm here to help! Try asking me about candidates or CVs.'')
       \<and> (generator w (build_chat_prompt a q) 150 (8 / 10) = Inr s \<and> list_all is_space s \<longrightarrow>
            fst (handle_chat w a q)
              = ''I'm here to help with HR and candidate questions. What would you like to know?'')"
  using handle_chat_substitutes[OF assms, of w a e s]
  by (simp add: chat_error_msg_def chat_fallback_msg_def)

theorem chat_generator_failure_substituted_witness:
  "fst (handle_chat (demo_world demo_embeddings (\<lambda>p n t. Inl Timeout)) (new_assistant 1)
          ''good morning'') = ''I'm here to help! Try asking me about candidates or CVs.''
   \<and> fst (handle_chat (demo_world demo_embeddings (\<lambda>p n t. Inr ''  '')) (new_assistant 1)
          ''good morning'')
       = ''I'm here to help with HR and candidate questions. What would you like to know?''"
proof -
  have f: "find (\<lambda>(key, response). str_in key (strip (lower ''good morning''))) simple_responses = None"
    by (simp add: string_defs simple_responses_def)
  have g1: "generator (demo_world demo_embeddings (\<lambda>p n t. Inl Timeout))
              (build_chat_prompt (new_assistant 1) ''good morning'') 150 (8 / 10) = Inl Timeout"
    by (simp add: demo_world_def)
  have g2: "generator (demo_world demo_embeddings (\<lambda>p n t. Inr ''  ''))
              (build_chat_prompt (new_assistant 1) ''good morning'') 150 (8 / 10) = Inr ''  ''
            \<and> list_all is_space ''  ''"
    by (simp add: demo_world_def is_space_def)
  show ?thesis
    using chat_generator_failure_substituted[OF f, of "demo_world demo_embeddings (\<lambda>p n t. Inl Timeout)"
            "new_assistant 1" Timeout "''  ''"]
      chat_generator_failure_substituted[OF f, of "demo_world demo_embeddings (\<lambda>p n t. Inr ''  '')"
            "new_assistant 1" Timeout "''  ''"] g1 g2
    by blast
qed

text \<open>
  Claim C1, on the code. Owner 3 has no stored vectors. For the search query
  "find python", \<^verbatim>\<open>handle_cv_search\<close> returns the fixed "no matches" string, bare;
  \<^verbatim>\<open>process_query\<close> unpacks it as a pair and raises ValueError. The assistant is as it
  was (nothing is appended to the history), nothing is saved, and no response is returned.
\<close>

theorem no_match_unpack_raises:
  "fst (handle_cv_search (demo_world demo_embeddings (\<lambda>p n t. Inr ''ok'')) (new_assistant 3)
          ''find python'')
     = Inr (RStr ''I couldn't find any relevant CVs for your query.'')
   \<and> process_query (demo_world demo_embeddings (\<lambda>p n t. Inr ''ok'')) (new_assistant 3)
        ''find python''
     = (Inl ValueError, new_assistant 3,
        called (GetUserEmbeddings 3)
          (called (Embed ''find python'') (demo_world demo_embeddings (\<lambda>p n t. Inr ''ok''))))"
  by (simp add: string_defs intent_defs store_defs prompt_defs orchestrator_defs Let_def)

text \<open>
  Claim C2, on the code. Owner 1 has two profiles. For the search query "find python",
  when the generator returns an empty or blank text, or raises, \<^verbatim>\<open>handle_cv_search\<close>
  picks the fixed fallback or error message, bare; \<^verbatim>\<open>process_query\<close> unpacks it as a
  pair and raises ValueError, so the caller receives neither message, and the history and
  the chat log stay empty.
\<close>

theorem generator_failure_unpack_raises:
  "fst (process_query (demo_world demo_embeddings (\<lambda>p n t. Inr [])) (new_assistant 1)
          ''find python'') = Inl ValueError
   \<and> fst (process_query (demo_world demo_embeddings (\<lambda>p n t. Inr ''  '')) (new_assistant 1)
          ''find python'') = Inl ValueError
   \<and> fst (process_query (demo_world demo_embeddings (\<lambda>p n t. Inl ExternalError)) (new_assistant 1)
          ''find python'') = Inl ValueError
   \<and> fst (handle_cv_search (demo_world demo_embeddings (\<lambda>p n t. Inr [])) (new_assistant 1)
          ''find python'')
       = Inr (RStr ''I found the profiles but couldn't generate a response. Please try rephrasing your query.'')
   \<and> fst (handle_cv_search (demo_world demo_embeddings (\<lambda>p n t. Inl ExternalError)) (new_assistant 1)
          ''find python'')
       = Inr (RStr ''Sorry, I encountered an error processing your request.'')
   \<and> fst (snd (process_query (demo_world demo_embeddings (\<lambda>p n t. Inr [])) (new_assistant 1)
          ''find python'')) = new_assistant 1
   \<and> chats (snd (snd (process_query (demo_world demo_embeddings (\<lambda>p n t. Inr [])) (new_assistant 1)
          ''find python''))) = []"
  by (simp add: string_defs intent_defs store_defs prompt_defs orchestrator_defs Let_def)

section \<open>Prompt composer: missing fields, the query text, and malformed fields\<close>

lemma build_chat_prompt_contains_query: "str_in q (build_chat_prompt a q)"
proof -
  have "build_chat_prompt a q =
          ((if conversation_history a \<noteq> [] then build_history_context a else []) @
           ''You are a helpful HR assistant. User said: '' @ [CHR 0x27]) @ q @
          ([CHR 0x27] @ ''. Give a brief, friendly response.'')"
    by (simp add: build_chat_prompt_def)
  then show ?thesis
    by (simp only: str_in_appendI)
qed

lemma build_search_prompt_contains_query:
  assumes "build_search_prompt w a q rs = (Inr p, w')"
  shows "str_in q p"
proof -
  obtain blocks where
    "p = ((if needs_context q then build_history_context a else []) @
          ''You are an HR assistant. Answer this question: '') @ q @
         (newline @ ''Only use relevant candidate data. Ignore irrelevant information.'' @
          newline @ newline @ ''CANDIDATES:'' @ newline @ blocks @ newline @
          ''Provide direct, focused short answer only.'')"
    using assms by (auto simp: build_search_prompt_def Let_def split: prod.splits sum.splits)
  then show ?thesis
    by (simp only: str_in_appendI)
qed

lemma format_cv_summary_no_fields:
  assumes "map_of d ''Name'' = None" and "map_of d ''Education'' = None"
    and "map_of d ''Experience'' = None" and "map_of d ''Skills'' = None"
  shows "format_cv_summary pstr (JDict d) rank = Inr (''CANDIDATE '' @ str_int rank @ '':'' @ newline)"
  using assms
  by (simp add: format_cv_summary_def dict_get_def section_line_def skills_line_def)

text \<open>
  A record with none of the four fields gives the header line alone, and every composed
  prompt, for search and for chat, contains the text of the query.
\<close>

theorem prompt_composition:
  "(map_of d ''Name'' = None \<and> map_of d ''Education'' = None \<and>
    map_of d ''Experience'' = None \<and> map_of d ''Skills'' = None \<longrightarrow>
      format_cv_summary pstr (JDict d) rank = Inr (''CANDIDATE '' @ str_int rank @ '':'' @ newline))
   \<and> str_in q (build_chat_prompt a q)
   \<and> (\<forall>p w'. build_search_prompt w a q rs = (Inr p, w') \<longrightarrow> str_in q p)"
  using format_cv_summary_no_fields[of d pstr rank] build_chat_prompt_contains_query[of q a]
    build_search_prompt_contains_query[of w a q rs]
  by blast

theorem prompt_composition_witness:
  "format_cv_summary (\<lambda>v. ''?'') (JDict [(''Email'', JStr ''ann@example.org'')]) 2
     = Inr (''CANDIDATE 2:'' @ newline)
   \<and> (\<exists>p. fst (build_search_prompt (demo_world demo_embeddings (\<lambda>p n t. Inr ''ok''))
                 (new_assistant 1) ''find python'' [bob_result, ann_result]) = Inr p
          \<and> str_in ''find python'' p)"
proof -
  let ?w = "demo_world demo_embeddings (\<lambda>p n t. Inr ''ok'')"
  have m: "map_of [(''Email'', JStr ''ann@example.org'')] ''Name'' = None
         \<and> map_of [(''Email'', JStr ''ann@example.org'')] ''Education'' = None
         \<and> map_of [(''Email'', JStr ''ann@example.org'')] ''Experience'' = None
         \<and> map_of [(''Email'', JStr ''ann@example.org'')] ''Skills'' = None"
    by simp
  have s: "str_int 2 = ''2''"
    by (simp add: string_defs)
  obtain p w' where b: "build_search_prompt ?w (new_assistant 1) ''find python'' [bob_result, ann_result]
                          = (Inr p, w')"
    by (simp add: string_defs intent_defs store_defs prompt_defs new_assistant_def Let_def
          bob_result_def ann_result_def)
  show ?thesis
    using prompt_composition[of "[(''Email'', JStr ''ann@example.org'')]" "\<lambda>v. ''?''" 2
            "''find python''" "new_assistant 1" ?w "[bob_result, ann_result]"] m s b
    by auto
qed

text \<open>
  Claim C3, on the code. \<^verbatim>\<open>format_cv_summary\<close> raises TypeError on a summary whose
  skills list holds a number, and on one whose education is a single object instead of a
  list; with such a summary in the store, \<^verbatim>\<open>process_query\<close> raises TypeError on a search
  that ranks its profile.
\<close>

theorem format_cv_summary_raises:
  "format_cv_summary pstr
     (JDict [(''Name'', JStr ''Ann''), (''Skills'', JList [JStr ''Python'', JInt 3])]) 1
     = Inl TypeError
   \<and> format_cv_summary pstr
     (JDict [(''Name'', JStr ''Ann''), (''Education'', JDict [(''Degree'', JStr ''BSc'')])]) 1
     = Inl TypeError
   \<and> fst (process_query
            ((demo_world demo_embeddings (\<lambda>p n t. Inr ''ok''))\<lparr>cvs := odd_cvs\<rparr>) (new_assistant 1)
            ''find python'') = Inl TypeError"
  by (simp add: string_defs intent_defs store_defs prompt_defs orchestrator_defs odd_cvs_def Let_def)

end
